theory Spec2Isabelle
  imports Main "HOL-Library.Word" "HOL-Library.AList" "HOL-Library.Multiset"
begin

section \<open>JavaScript values\<close>

text \<open>
  A JavaScript string is a sequence of UTF-16 code units; \<open>length\<close>, \<open>substring\<close>,
  \<open>trim\<close> and a regular expression without the \<open>u\<close> flag all work on code units.
  String literals of the source are ASCII and are written through \<open>str\<close>.
\<close>

type_synonym jschar = "16 word"
type_synonym jsstring = "jschar list"

definition str :: "string \<Rightarrow> jsstring" where
  "str s = map of_char s"

text \<open>
  The values a parsed JSON document or a property read can hold. \<open>JUndefined\<close> is the
  result of reading a property that is absent. Numbers are kept as integers: the
  program only tests a number for truthiness and passes it on.
\<close>

datatype jsvalue =
    JUndefined
  | JNull
  | JBool bool
  | JNumber int
  | JString jsstring
  | JArray "jsvalue list"
  | JObject "(jsstring \<times> jsvalue) list"

datatype js_type = TUndefined | TObject | TBoolean | TNumber | TString

fun typeof :: "jsvalue \<Rightarrow> js_type" where
  "typeof JUndefined = TUndefined"
| "typeof JNull = TObject"
| "typeof (JBool b) = TBoolean"
| "typeof (JNumber n) = TNumber"
| "typeof (JString s) = TString"
| "typeof (JArray xs) = TObject"
| "typeof (JObject kvs) = TObject"

text \<open>Truthiness, as \<open>!v\<close> and \<open>if (v)\<close> read it.\<close>

fun truthy :: "jsvalue \<Rightarrow> bool" where
  "truthy JUndefined = False"
| "truthy JNull = False"
| "truthy (JBool b) = b"
| "truthy (JNumber n) = (n \<noteq> 0)"
| "truthy (JString s) = (s \<noteq> [])"
| "truthy (JArray xs) = True"
| "truthy (JObject kvs) = True"

text \<open>Every exception of the source is an \<open>Error\<close> carrying a message.\<close>

datatype js_error = Error (message: jsstring)

text \<open>
  \<open>String.prototype.trim\<close> removes the ECMAScript WhiteSpace and LineTerminator code
  points from both ends; all of them are single code units.
\<close>

definition isWhiteSpace :: "jschar \<Rightarrow> bool" where
  "isWhiteSpace c \<longleftrightarrow>
     c \<in> {0x0009, 0x000A, 0x000B, 0x000C, 0x000D, 0x0020, 0x00A0, 0x1680,
          0x2028, 0x2029, 0x202F, 0x205F, 0x3000, 0xFEFF}
     \<or> (0x2000 \<le> c \<and> c \<le> 0x200A)"

definition trim :: "jsstring \<Rightarrow> jsstring" where
  "trim s = rev (dropWhile isWhiteSpace (rev (dropWhile isWhiteSpace s)))"

text \<open>Reading a property of an object literal or of a parsed JSON object.\<close>

definition get_property :: "(jsstring \<times> jsvalue) list \<Rightarrow> string \<Rightarrow> jsvalue" where
  "get_property kvs k = (case map_of kvs (str k) of None \<Rightarrow> JUndefined | Some v \<Rightarrow> v)"

text \<open>A default in a parameter list or a destructuring pattern applies to \<open>undefined\<close> only.\<close>

definition or_default :: "jsvalue \<Rightarrow> jsvalue \<Rightarrow> jsvalue" where
  "or_default v d = (if v = JUndefined then d else v)"

section \<open>Domain model: ImageGenerationRequest\<close>

definition ImageSize_SQUARE :: jsstring where
  "ImageSize_SQUARE = str ''1024x1024''"

definition ImageSize_LANDSCAPE :: jsstring where
  "ImageSize_LANDSCAPE = str ''1792x1024''"

definition ImageSize_PORTRAIT :: jsstring where
  "ImageSize_PORTRAIT = str ''1024x1792''"

definition ImageQuality_STANDARD :: jsstring where
  "ImageQuality_STANDARD = str ''standard''"

definition ImageQuality_HD :: jsstring where
  "ImageQuality_HD = str ''hd''"

text \<open>
  \<open>size\<close> and \<open>quality\<close> are typed by the enums, but the controller passes whatever
  the request body held through an unchecked cast, so the fields hold any value.
\<close>

record ImageGenerationRequest =
  req_prompt :: jsstring
  req_size :: jsvalue
  req_quality :: jsvalue

definition validate :: "ImageGenerationRequest \<Rightarrow> js_error + unit" where
  "validate r =
     (if req_prompt r = [] \<or> length (trim (req_prompt r)) = 0
      then Inl (Error (str ''Prompt cannot be empty''))
      else Inr ())"

definition new_ImageGenerationRequest ::
  "jsstring \<Rightarrow> jsvalue \<Rightarrow> jsvalue \<Rightarrow> js_error + ImageGenerationRequest" where
  "new_ImageGenerationRequest p sz q =
     (let r = \<lparr>req_prompt = p,
               req_size = or_default sz (JString ImageSize_SQUARE),
               req_quality = or_default q (JString ImageQuality_STANDARD)\<rparr>
      in case validate r of Inl e \<Rightarrow> Inl e | Inr u \<Rightarrow> Inr r)"

section \<open>Domain model: ImageMetadata\<close>

text \<open>
  A \<open>Date\<close> holds a time value in milliseconds since the epoch, or is invalid (its
  time value is NaN). \<open>getTime\<close> returns a number.
\<close>

datatype js_date = ValidDate int | InvalidDate

datatype js_number = Num int | NaN

fun getTime :: "js_date \<Rightarrow> js_number" where
  "getTime (ValidDate t) = Num t"
| "getTime InvalidDate = NaN"

fun minus_number :: "js_number \<Rightarrow> js_number \<Rightarrow> js_number" where
  "minus_number (Num a) (Num b) = Num (a - b)"
| "minus_number a b = NaN"

text \<open>
  \<open>fromJSON\<close> passes on whatever the parsed document held, so the fields of a record
  read from disk hold any value.
\<close>

record ImageMetadata =
  meta_id :: jsvalue
  meta_prompt :: jsvalue
  meta_createdAt :: js_date
  meta_size :: jsvalue
  meta_quality :: jsvalue

section \<open>The world outside the program\<close>

text \<open>
  \<open>path.join dir name\<close> names the entry \<open>name\<close> of directory \<open>dir\<close>; a path is
  kept as that pair. The normalisation that \<open>path.join\<close> also does (the segments
  \<open>.\<close> and \<open>..\<close> and repeated separators inside the name) is left out: an id is
  looked up under the name it spells.
\<close>

datatype path = Path (dirname: jsstring) (basename: jsstring)

definition path_join :: "jsstring \<Rightarrow> jsstring \<Rightarrow> path" where
  "path_join d n = Path d n"

text \<open>
  What a file holds: image bytes, text that \<open>JSON.parse\<close> reads as the given value,
  or anything else on which reading and parsing raises.
\<close>

datatype file_content = ImageBytes "8 word list" | JsonText jsvalue | Malformed

text \<open>
  The state the program changes: the file system (entries in listing order), the
  clock in milliseconds, and the paths written so far in the order of their writes.
\<close>

record world =
  directories :: "jsstring list"
  files :: "(path \<times> file_content) list"
  clock :: int
  writes :: "path list"

datatype protocol = Https | Http

record http_response =
  statusCode :: nat
  location :: "jsstring option"
  body :: "8 word list"
  elapsed :: nat

datatype http_outcome = Response http_response | RequestError js_error

text \<open>What \<open>chatModel.invoke\<close> yields: an exception, or a message with its content.\<close>

datatype chat_result = InvokeError js_error | Content jsvalue

text \<open>
  The collaborators the program calls but does not contain: the configured storage
  path, the remote answering a GET, the disk accepting or refusing a write, the
  runtime's \<open>Date\<close> (constructor from a value, \<open>toISOString\<close>), the chat model and the
  image generation client.
\<close>

record env =
  storagePath :: jsstring
  http_get :: "protocol \<Rightarrow> jsstring \<Rightarrow> http_outcome"
  write_error :: "path \<Rightarrow> js_error option"
  toISOString :: "int \<Rightarrow> jsstring"
  new_Date :: "jsvalue \<Rightarrow> js_date"
  chatModel_invoke :: "jsstring \<Rightarrow> chat_result"
  imageClient_generateImage :: "jsstring \<Rightarrow> jsvalue \<Rightarrow> jsvalue \<Rightarrow> js_error + jsstring"

definition existsSync :: "world \<Rightarrow> path \<Rightarrow> bool" where
  "existsSync s p = (map_of (files s) p \<noteq> None)"

definition existsSync_dir :: "world \<Rightarrow> jsstring \<Rightarrow> bool" where
  "existsSync_dir s d = (d \<in> set (directories s))"

definition readdirSync :: "world \<Rightarrow> jsstring \<Rightarrow> jsstring list" where
  "readdirSync s d = map (basename \<circ> fst) (filter (\<lambda>e. dirname (fst e) = d) (files s))"

definition readFileSync :: "world \<Rightarrow> path \<Rightarrow> js_error + file_content" where
  "readFileSync s p =
     (case map_of (files s) p of
        None \<Rightarrow> Inl (Error (str ''ENOENT: no such file or directory''))
      | Some c \<Rightarrow> Inr c)"

definition write_file :: "path \<Rightarrow> file_content \<Rightarrow> world \<Rightarrow> world" where
  "write_file p c s = s\<lparr>files := AList.update p c (files s), writes := writes s @ [p]\<rparr>"

fun JSON_parse :: "file_content \<Rightarrow> js_error + jsvalue" where
  "JSON_parse (JsonText v) = Inr v"
| "JSON_parse (ImageBytes b) = Inl (Error (str ''Unexpected token''))"
| "JSON_parse Malformed = Inl (Error (str ''Unexpected token''))"

text \<open>
  \<open>JSON.stringify\<close> leaves out the properties of an object whose value is
  \<open>undefined\<close>; the text it returns parses back to what remains.
\<close>

fun JSON_stringify :: "jsvalue \<Rightarrow> file_content" where
  "JSON_stringify (JObject kvs) = JsonText (JObject (filter (\<lambda>kv. snd kv \<noteq> JUndefined) kvs))"
| "JSON_stringify v = JsonText v"

definition starts_with :: "jsstring \<Rightarrow> jsstring \<Rightarrow> bool" where
  "starts_with pre s = (take (length pre) s = pre)"

definition ends_with :: "jsstring \<Rightarrow> jsstring \<Rightarrow> bool" where
  "ends_with suf s = (length suf \<le> length s \<and> drop (length s - length suf) s = suf)"

text \<open>Decimal digits of a number, as a template literal prints a status code.\<close>

fun decimal :: "nat \<Rightarrow> jsstring" where
  "decimal n =
     (if n < 10 then [of_nat (48 + n)]
      else decimal (n div 10) @ [of_nat (48 + n mod 10)])"

declare decimal.simps [simp del]

section \<open>ImageMetadata.toJSON and ImageMetadata.fromJSON\<close>

text \<open>\<open>toISOString\<close> raises a RangeError on an invalid date.\<close>

definition toJSON :: "env \<Rightarrow> ImageMetadata \<Rightarrow> js_error + jsvalue" where
  "toJSON e m =
     (case meta_createdAt m of
        InvalidDate \<Rightarrow> Inl (Error (str ''Invalid time value''))
      | ValidDate t \<Rightarrow>
          Inr (JObject [(str ''id'', meta_id m),
                        (str ''prompt'', meta_prompt m),
                        (str ''createdAt'', JString (toISOString e t)),
                        (str ''size'', meta_size m),
                        (str ''quality'', meta_quality m)]))"

text \<open>
  Reading a property of \<open>null\<close> or \<open>undefined\<close> raises a TypeError; a parsed object
  gives the property or \<open>undefined\<close>; any other parsed value has none of the five
  properties.
\<close>

fun data_property :: "jsvalue \<Rightarrow> string \<Rightarrow> jsvalue" where
  "data_property (JObject kvs) k = get_property kvs k"
| "data_property v k = JUndefined"

definition fromJSON :: "env \<Rightarrow> jsvalue \<Rightarrow> js_error + ImageMetadata" where
  "fromJSON e data =
     (if data = JNull \<or> data = JUndefined
      then Inl (Error (str ''Cannot read properties of null''))
      else Inr \<lparr>meta_id = data_property data ''id'',
                meta_prompt = data_property data ''prompt'',
                meta_createdAt = new_Date e (data_property data ''createdAt''),
                meta_size = data_property data ''size'',
                meta_quality = data_property data ''quality''\<rparr>)"

section \<open>FileImageRepository\<close>

definition getImagePath :: "env \<Rightarrow> jsstring \<Rightarrow> path" where
  "getImagePath e imageId = path_join (storagePath e) (imageId @ str ''.png'')"

definition getMetadataPath :: "env \<Rightarrow> jsstring \<Rightarrow> path" where
  "getMetadataPath e imageId = path_join (storagePath e) (imageId @ str ''.json'')"

definition exists :: "env \<Rightarrow> world \<Rightarrow> jsstring \<Rightarrow> bool" where
  "exists e s imageId = existsSync s (getImagePath e imageId)"

text \<open>\<open>protocol.get(url)\<close>, the protocol chosen by the prefix of the URL.\<close>

definition protocol_get :: "env \<Rightarrow> jsstring \<Rightarrow> http_outcome" where
  "protocol_get e url = http_get e (if starts_with (str ''https'') url then Https else Http) url"

text \<open>Each response moves the clock by the time it took to arrive.\<close>

definition after_response :: "http_response \<Rightarrow> world \<Rightarrow> world" where
  "after_response r s = s\<lparr>clock := clock s + int (elapsed r)\<rparr>"

text \<open>
  \<open>downloadImage\<close> settles with the image written, or rejects with an error, or, on a
  redirect chain that never ends, does neither: the result is \<open>None\<close> then.
\<close>

partial_function (option) downloadImage ::
  "env \<Rightarrow> jsstring \<Rightarrow> path \<Rightarrow> world \<Rightarrow> ((js_error + unit) \<times> world) option" where
  "downloadImage e url filePath s =
     (case protocol_get e url of
        RequestError err \<Rightarrow> Some (Inl err, s)
      | Response r \<Rightarrow>
          if statusCode r = 200 then
            (case write_error e filePath of
               Some err \<Rightarrow> Some (Inl err, after_response r s)
             | None \<Rightarrow>
                 Some (Inr (), write_file filePath (ImageBytes (body r)) (after_response r s)))
          else if statusCode r = 301 \<or> statusCode r = 302 then
            (case location r of
               Some l \<Rightarrow>
                 if l \<noteq> [] then downloadImage e l filePath (after_response r s)
                 else Some (Inl (Error (str ''Redirect without location header'')),
                            after_response r s)
             | None \<Rightarrow>
                 Some (Inl (Error (str ''Redirect without location header'')),
                       after_response r s))
          else Some (Inl (Error (str ''Failed to download image: '' @ decimal (statusCode r))),
                     after_response r s))"

declare downloadImage.simps [code]

text \<open>\<open>uuid\<close> is the value \<open>uuidv4()\<close> returns in this call.\<close>

definition save ::
  "env \<Rightarrow> jsstring \<Rightarrow> jsstring \<Rightarrow> jsstring \<Rightarrow> jsvalue \<Rightarrow> jsvalue \<Rightarrow> world
     \<Rightarrow> ((js_error + jsstring) \<times> world) option" where
  "save e uuid imageUrl prompt sz quality s =
     (let imageId = uuid;
          imagePath = getImagePath e imageId;
          metadataPath = getMetadataPath e imageId
      in case downloadImage e imageUrl imagePath s of
           None \<Rightarrow> None
         | Some (Inl err, s1) \<Rightarrow> Some (Inl err, s1)
         | Some (Inr u, s1) \<Rightarrow>
             (let metadata = \<lparr>meta_id = JString imageId, meta_prompt = JString prompt,
                              meta_createdAt = ValidDate (clock s1),
                              meta_size = sz, meta_quality = quality\<rparr>
              in case toJSON e metadata of
                   Inl err \<Rightarrow> Some (Inl err, s1)
                 | Inr j \<Rightarrow>
                     (case write_error e metadataPath of
                        Some err \<Rightarrow> Some (Inl err, s1)
                      | None \<Rightarrow> Some (Inr imageId, write_file metadataPath (JSON_stringify j) s1))))"

text \<open>The body of the \<open>try\<close> that \<open>findById\<close> and \<open>findAll\<close> both run on one file.\<close>

definition read_metadata :: "env \<Rightarrow> world \<Rightarrow> path \<Rightarrow> js_error + ImageMetadata" where
  "read_metadata e s p =
     (case readFileSync s p of
        Inl err \<Rightarrow> Inl err
      | Inr c \<Rightarrow> (case JSON_parse c of Inl err \<Rightarrow> Inl err | Inr data \<Rightarrow> fromJSON e data))"

definition findById :: "env \<Rightarrow> world \<Rightarrow> jsstring \<Rightarrow> ImageMetadata option" where
  "findById e s imageId =
     (let metadataPath = getMetadataPath e imageId
      in if \<not> existsSync s metadataPath then None
         else case read_metadata e s metadataPath of Inl err \<Rightarrow> None | Inr m \<Rightarrow> Some m)"

text \<open>The loop of \<open>findAll\<close>: a file that cannot be read or parsed adds nothing.\<close>

fun collect_images :: "env \<Rightarrow> world \<Rightarrow> jsstring list \<Rightarrow> ImageMetadata list \<Rightarrow> ImageMetadata list" where
  "collect_images e s [] images = images"
| "collect_images e s (file # rest) images =
     collect_images e s rest
       (case read_metadata e s (path_join (storagePath e) file) of
          Inl err \<Rightarrow> images
        | Inr m \<Rightarrow> images @ [m])"

definition compare_createdAt :: "ImageMetadata \<Rightarrow> ImageMetadata \<Rightarrow> js_number" where
  "compare_createdAt a b = minus_number (getTime (meta_createdAt b)) (getTime (meta_createdAt a))"

text \<open>
  \<open>Array.prototype.sort\<close> as V8 (Node 11 and later) runs it on an array of fewer than
  64 elements. The comparator result counts as zero when it is NaN, and only its
  being negative is ever tested. The sort takes the initial run: while each element
  compares as not before its predecessor, or, when the second element compares as
  before the first, while each compares as before its predecessor, and then the run
  is reversed. Every later element is put into the ordered front at the place a
  binary search finds. For 64 elements and more V8 cuts the array into runs made this
  way and merges them; with a consistent comparator that gives the same stable
  ordering, and the model sorts arrays of every length as described here.
\<close>

fun is_negative :: "js_number \<Rightarrow> bool" where
  "is_negative (Num v) = (v < 0)"
| "is_negative NaN = False"

fun count_run :: "('a \<Rightarrow> 'a \<Rightarrow> js_number) \<Rightarrow> bool \<Rightarrow> 'a \<Rightarrow> 'a list \<Rightarrow> nat" where
  "count_run cmp descending previous [] = 0"
| "count_run cmp descending previous (current # rest) =
     (if is_negative (cmp current previous) = descending
      then Suc (count_run cmp descending current rest)
      else 0)"

definition count_and_make_run ::
  "('a \<Rightarrow> 'a \<Rightarrow> js_number) \<Rightarrow> 'a list \<Rightarrow> 'a list \<times> 'a list" where
  "count_and_make_run cmp xs =
     (case xs of
        x0 # x1 # rest \<Rightarrow>
          (let descending = is_negative (cmp x1 x0);
               runLength = 2 + count_run cmp descending x1 rest
           in (if descending then rev (take runLength xs) else take runLength xs,
               drop runLength xs))
      | _ \<Rightarrow> (xs, []))"

function binary_search ::
  "('a \<Rightarrow> 'a \<Rightarrow> js_number) \<Rightarrow> 'a \<Rightarrow> 'a list \<Rightarrow> nat \<Rightarrow> nat \<Rightarrow> nat" where
  "binary_search cmp pivot ws left right =
     (if left < right then
        (let mid = left + (right - left) div 2
         in if is_negative (cmp pivot (ws ! mid)) then binary_search cmp pivot ws left mid
            else binary_search cmp pivot ws (mid + 1) right)
      else left)"
  by pat_completeness auto
termination
  by (relation "measure (\<lambda>(cmp, pivot, ws, left, right). right - left)") auto

declare binary_search.simps [simp del]

definition binary_insert :: "('a \<Rightarrow> 'a \<Rightarrow> js_number) \<Rightarrow> 'a list \<Rightarrow> 'a \<Rightarrow> 'a list" where
  "binary_insert cmp ws pivot =
     (let left = binary_search cmp pivot ws 0 (length ws)
      in take left ws @ pivot # drop left ws)"

definition array_sort :: "('a \<Rightarrow> 'a \<Rightarrow> js_number) \<Rightarrow> 'a list \<Rightarrow> 'a list" where
  "array_sort cmp xs =
     (if length xs < 2 then xs
      else case count_and_make_run cmp xs of
             (run, rest) \<Rightarrow> foldl (binary_insert cmp) run rest)"

definition findAll :: "env \<Rightarrow> world \<Rightarrow> ImageMetadata list" where
  "findAll e s =
     (if \<not> existsSync_dir s (storagePath e) then []
      else let fs = readdirSync s (storagePath e);
               jsonFiles = filter (ends_with (str ''.json'')) fs;
               images = collect_images e s jsonFiles []
           in array_sort compare_createdAt images)"

section \<open>LangChainImageGenerationStrategy\<close>

definition promptTemplate_format :: "jsstring \<Rightarrow> jsstring" where
  "promptTemplate_format prompt =
     str ''You are an expert at creating detailed, artistic image prompts for AI image generation.\<newline>''
     @ str ''      Enhance the following prompt to be more descriptive, vivid, and artistic while maintaining the original intent.\<newline>''
     @ str ''      Add details about style, mood, lighting, composition, and artistic elements.\<newline>''
     @ str ''      \<newline>''
     @ str ''      Original prompt: '' @ prompt @ str ''\<newline>''
     @ str ''      \<newline>''
     @ str ''      Enhanced prompt:''"

text \<open>Calling \<open>.trim()\<close> on a value that is not a string raises a TypeError.\<close>

fun call_trim :: "jsvalue \<Rightarrow> js_error + jsstring" where
  "call_trim (JString s) = Inr (trim s)"
| "call_trim v = Inl (Error (str ''enhancedPrompt.trim is not a function''))"

text \<open>The body of the \<open>try\<close> in \<open>enhancePromptWithLangChain\<close>.\<close>

definition enhance_attempt :: "env \<Rightarrow> jsstring \<Rightarrow> js_error + jsstring" where
  "enhance_attempt e originalPrompt =
     (case chatModel_invoke e (promptTemplate_format originalPrompt) of
        InvokeError err \<Rightarrow> Inl err
      | Content enhancedPrompt \<Rightarrow>
          if \<not> truthy enhancedPrompt then Inr originalPrompt
          else (case call_trim enhancedPrompt of
                  Inl err \<Rightarrow> Inl err
                | Inr t \<Rightarrow> if length t > length originalPrompt then Inr t else Inr originalPrompt))"

text \<open>The \<open>catch\<close> returns the original prompt; \<open>getProviderName\<close> reads a field.\<close>

definition enhancePromptWithLangChain :: "env \<Rightarrow> jsstring \<Rightarrow> jsstring" where
  "enhancePromptWithLangChain e originalPrompt =
     (case enhance_attempt e originalPrompt of Inl err \<Rightarrow> originalPrompt | Inr p \<Rightarrow> p)"

definition wrap_generate_error :: "js_error \<Rightarrow> js_error" where
  "wrap_generate_error err = Error (str ''Failed to generate image: '' @ message err)"

definition generate :: "env \<Rightarrow> jsstring \<Rightarrow> jsvalue \<Rightarrow> jsvalue \<Rightarrow> js_error + jsstring" where
  "generate e prompt sz quality =
     (let enhancedPrompt = enhancePromptWithLangChain e prompt
      in case imageClient_generateImage e enhancedPrompt
                (or_default sz (JString (str ''1024x1024'')))
                (or_default quality (JString (str ''standard''))) of
           Inl err \<Rightarrow> Inl (wrap_generate_error err)
         | Inr imageUrl \<Rightarrow> Inr imageUrl)"

section \<open>ImageGenerationService\<close>

record generation_result =
  imageId :: jsstring
  imageUrl :: jsstring
  prompt :: jsstring

definition generateImage ::
  "env \<Rightarrow> jsstring \<Rightarrow> ImageGenerationRequest \<Rightarrow> world
     \<Rightarrow> ((js_error + generation_result) \<times> world) option" where
  "generateImage e uuid request s =
     (case generate e (req_prompt request) (req_size request) (req_quality request) of
        Inl err \<Rightarrow> Some (Inl (wrap_generate_error err), s)
      | Inr url \<Rightarrow>
          if url = [] then
            Some (Inl (wrap_generate_error (Error (str ''Image generation returned no URL''))), s)
          else
            (case save e uuid url (req_prompt request) (req_size request) (req_quality request) s of
               None \<Rightarrow> None
             | Some (Inl err, s1) \<Rightarrow> Some (Inl (wrap_generate_error err), s1)
             | Some (Inr newId, s1) \<Rightarrow>
                 Some (Inr \<lparr>imageId = newId,
                            imageUrl = str ''/api/images/'' @ newId,
                            prompt = req_prompt request\<rparr>, s1)))"

definition getImageById :: "env \<Rightarrow> world \<Rightarrow> jsstring \<Rightarrow> js_error + (path \<times> jsvalue)" where
  "getImageById e s anId =
     (case findById e s anId of
        None \<Rightarrow> Inl (Error (str ''Image not found''))
      | Some metadata \<Rightarrow>
          (let p = getImagePath e anId;
               ex = exists e s anId
           in if \<not> ex then Inl (Error (str ''Image file not found''))
              else case toJSON e metadata of Inl err \<Rightarrow> Inl err | Inr j \<Rightarrow> Inr (p, j)))"

fun map_toJSON :: "env \<Rightarrow> ImageMetadata list \<Rightarrow> js_error + jsvalue list" where
  "map_toJSON e [] = Inr []"
| "map_toJSON e (img # imgs) =
     (case toJSON e img of
        Inl err \<Rightarrow> Inl err
      | Inr j \<Rightarrow> (case map_toJSON e imgs of Inl err \<Rightarrow> Inl err | Inr js \<Rightarrow> Inr (j # js)))"

definition getAllImages :: "env \<Rightarrow> world \<Rightarrow> js_error + jsvalue list" where
  "getAllImages e s = map_toJSON e (findAll e s)"

text \<open>
  The pattern \<open>/[^a-z0-9]/gi\<close> has no \<open>u\<close> flag: it looks at one code unit at a time, and
  case folding never maps a code unit outside ASCII to a letter, so it matches exactly
  the code units that are not ASCII letters or digits.
\<close>

definition is_alnum :: "jschar \<Rightarrow> bool" where
  "is_alnum c \<longleftrightarrow>
     (0x30 \<le> c \<and> c \<le> 0x39) \<or> (0x41 \<le> c \<and> c \<le> 0x5A) \<or> (0x61 \<le> c \<and> c \<le> 0x7A)"

definition substring0 :: "nat \<Rightarrow> jsstring \<Rightarrow> jsstring" where
  "substring0 n s = take n s"

definition replace_non_alnum :: "jsstring \<Rightarrow> jsstring" where
  "replace_non_alnum s = map (\<lambda>c. if \<not> is_alnum c then 0x2D else c) s"

text \<open>
  \<open>toLowerCase\<close> on ASCII: the only letters left after the replacement are ASCII, and
  every other code unit the replacement leaves (digits, the dash) is its own lower case.
\<close>

definition lower_char :: "jschar \<Rightarrow> jschar" where
  "lower_char c = (if 0x41 \<le> c \<and> c \<le> 0x5A then c + 0x20 else c)"

definition toLowerCase :: "jsstring \<Rightarrow> jsstring" where
  "toLowerCase s = map lower_char s"

text \<open>Calling \<open>.substring\<close> on a stored prompt that is not a string raises a TypeError.\<close>

definition getDownloadFilename :: "env \<Rightarrow> world \<Rightarrow> jsstring \<Rightarrow> js_error + jsstring" where
  "getDownloadFilename e s anId =
     (case findById e s anId of
        None \<Rightarrow> Inr (str ''artwork-'' @ anId @ str ''.png'')
      | Some metadata \<Rightarrow>
          (case meta_prompt metadata of
             JString p \<Rightarrow>
               (let sanitizedPrompt = toLowerCase (replace_non_alnum (substring0 50 p))
                in Inr (str ''artwork-'' @ sanitizedPrompt @ str ''-'' @ anId @ str ''.png''))
           | _ \<Rightarrow> Inl (Error (str ''metadata.prompt.substring is not a function''))))"

section \<open>ImageController\<close>

text \<open>
  What a handler sends: a JSON body with a status (\<open>res.json\<close> alone sends 200), a
  file, or a file as an attachment with a filename. The file is named by the path the
  service returned; \<open>path.resolve\<close> only makes that path absolute.
\<close>

datatype http_reply =
    Json nat "(jsstring \<times> jsvalue) list"
  | SendFile path
  | Attachment path jsstring

definition generate_handler ::
  "env \<Rightarrow> jsstring \<Rightarrow> (jsstring \<times> jsvalue) list \<Rightarrow> world \<Rightarrow> (http_reply \<times> world) option" where
  "generate_handler e uuid req_body s =
     (let p = get_property req_body ''prompt'';
          sz = or_default (get_property req_body ''size'') (JString (str ''1024x1024''));
          quality = or_default (get_property req_body ''quality'') (JString (str ''standard''))
      in if \<not> truthy p \<or> typeof p \<noteq> TString then
           Some (Json 400 [(str ''error'', JString (str ''Prompt is required''))], s)
         else
           (case p of
              JString ps \<Rightarrow>
                (case new_ImageGenerationRequest ps sz quality of
                   Inl err \<Rightarrow>
                     Some (Json 500 [(str ''error'', JString (str ''Failed to generate image'')),
                                     (str ''message'', JString (message err))], s)
                 | Inr request \<Rightarrow>
                     (case generateImage e uuid request s of
                        None \<Rightarrow> None
                      | Some (Inl err, s1) \<Rightarrow>
                          Some (Json 500 [(str ''error'', JString (str ''Failed to generate image'')),
                                          (str ''message'', JString (message err))], s1)
                      | Some (Inr result, s1) \<Rightarrow>
                          Some (Json 200 [(str ''success'', JBool True),
                                          (str ''imageId'', JString (imageId result)),
                                          (str ''imageUrl'', JString (imageUrl result)),
                                          (str ''prompt'', JString (prompt result))], s1)))
            | _ \<Rightarrow> Some (Json 400 [(str ''error'', JString (str ''Prompt is required''))], s)))"

definition not_found_reply :: "js_error \<Rightarrow> string \<Rightarrow> http_reply" where
  "not_found_reply err failure =
     (if message err = str ''Image not found'' \<or> message err = str ''Image file not found''
      then Json 404 [(str ''error'', JString (message err))]
      else Json 500 [(str ''error'', JString (str failure))])"

definition getById :: "env \<Rightarrow> world \<Rightarrow> jsstring \<Rightarrow> http_reply" where
  "getById e s anId =
     (case getImageById e s anId of
        Inr (imagePath, metadata) \<Rightarrow> SendFile imagePath
      | Inl err \<Rightarrow> not_found_reply err ''Failed to serve image'')"

definition listAll :: "env \<Rightarrow> world \<Rightarrow> http_reply" where
  "listAll e s =
     (case getAllImages e s of
        Inr images \<Rightarrow> Json 200 [(str ''success'', JBool True), (str ''images'', JArray images)]
      | Inl err \<Rightarrow> Json 500 [(str ''error'', JString (str ''Failed to list images''))])"

definition download :: "env \<Rightarrow> world \<Rightarrow> jsstring \<Rightarrow> http_reply" where
  "download e s anId =
     (case getImageById e s anId of
        Inl err \<Rightarrow> not_found_reply err ''Failed to download image''
      | Inr (imagePath, metadata) \<Rightarrow>
          (case getDownloadFilename e s anId of
             Inl err \<Rightarrow> not_found_reply err ''Failed to download image''
           | Inr filename \<Rightarrow> Attachment imagePath filename))"

section \<open>Concrete collaborators for the examples\<close>

text \<open>
  The runtime's dates at the few time values the examples use. An array or an object,
  which the runtime reads through its string form, has no date here.
\<close>

definition demo_dates :: "(int \<times> jsstring) list" where
  "demo_dates =
     [(1000, str ''1970-01-01T00:00:01.000Z''),
      (2000, str ''1970-01-01T00:00:02.000Z''),
      (3000, str ''1970-01-01T00:00:03.000Z''),
      (1000160, str ''1970-01-01T00:16:40.160Z'')]"

fun demo_new_Date :: "jsvalue \<Rightarrow> js_date" where
  "demo_new_Date (JString x) =
     (case map_of (map (\<lambda>(t, x). (x, t)) demo_dates) x of
        Some t \<Rightarrow> ValidDate t
      | None \<Rightarrow> InvalidDate)"
| "demo_new_Date (JNumber n) =
     (if \<bar>n\<bar> \<le> 8640000000000000 then ValidDate n else InvalidDate)"
| "demo_new_Date JNull = ValidDate 0"
| "demo_new_Date (JBool b) = ValidDate (if b then 1 else 0)"
| "demo_new_Date v = InvalidDate"

definition demo_responses :: "(jsstring \<times> http_response) list" where
  "demo_responses =
     [(str ''https://cdn.example/img?sig=1'',
       \<lparr>statusCode = 302, location = Some (str ''https://cdn.example/final.png''),
        body = [], elapsed = 40\<rparr>),
      (str ''https://cdn.example/final.png'',
       \<lparr>statusCode = 200, location = None, body = [0x89, 0x50, 0x4E, 0x47],
        elapsed = 120\<rparr>),
      (str ''https://cdn.example/moved'',
       \<lparr>statusCode = 307, location = Some (str ''https://cdn.example/final.png''),
        body = [], elapsed = 30\<rparr>)]"

definition demo_env :: env where
  "demo_env =
     \<lparr>storagePath = str ''./generated-images'',
      http_get = (\<lambda>proto url.
         case map_of demo_responses url of
           Some r \<Rightarrow> Response r
         | None \<Rightarrow> Response \<lparr>statusCode = 404, location = None, body = [], elapsed = 5\<rparr>),
      write_error = (\<lambda>p. None),
      toISOString = (\<lambda>t. case map_of demo_dates t of Some x \<Rightarrow> x | None \<Rightarrow> []),
      new_Date = demo_new_Date,
      chatModel_invoke =
        (\<lambda>p. Content (JString (str ''  a cat, painted in watercolor, soft lighting ''))),
      imageClient_generateImage = (\<lambda>p sz q. Inr (str ''https://cdn.example/img?sig=1''))\<rparr>"

definition demo_record :: "string \<Rightarrow> string \<Rightarrow> string \<Rightarrow> file_content" where
  "demo_record i p t =
     JsonText (JObject [(str ''id'', JString (str i)),
                        (str ''prompt'', JString (str p)),
                        (str ''createdAt'', JString (str t)),
                        (str ''size'', JString (str ''1024x1024'')),
                        (str ''quality'', JString (str ''standard''))])"

definition demo_world :: world where
  "demo_world =
     \<lparr>directories = [str ''./generated-images''],
      files =
        [(Path (str ''./generated-images'') (str ''abc123.png''), ImageBytes [0x89, 0x50, 0x4E, 0x47]),
         (Path (str ''./generated-images'') (str ''abc123.json''),
          demo_record ''abc123'' ''A Beautiful!! Sunset@Sea'' ''1970-01-01T00:00:02.000Z''),
         (Path (str ''./generated-images'') (str ''orphan.json''),
          demo_record ''orphan'' ''a lighthouse'' ''1970-01-01T00:00:01.000Z''),
         (Path (str ''./generated-images'') (str ''broken.json''), Malformed),
         (Path (str ''./generated-images'') (str ''newest.json''),
          demo_record ''newest'' ''a fox'' ''1970-01-01T00:00:03.000Z'')],
      clock = 1000000,
      writes = []\<rparr>"

section \<open>Auxiliary definitions for the statements\<close>

text \<open>What a finished \<open>downloadImage\<close> has done to the world, by its result.\<close>

definition download_post :: "env \<Rightarrow> path \<Rightarrow> world \<Rightarrow> (js_error + unit) \<times> world \<Rightarrow> bool" where
  "download_post e p s y \<longleftrightarrow>
     directories (snd y) = directories s \<and> clock s \<le> clock (snd y) \<and>
     (case fst y of
        Inl err \<Rightarrow> files (snd y) = files s \<and> writes (snd y) = writes s
      | Inr u \<Rightarrow>
          write_error e p = None
          \<and> (\<exists>u r. protocol_get e u = Response r \<and> statusCode r = 200
                \<and> files (snd y) = AList.update p (ImageBytes (body r)) (files s))
          \<and> writes (snd y) = writes s @ [p])"

text \<open>
  The status classes of HTTP, which the specification's words ``success status'' and
  ``redirect'' name: 2xx and 3xx.
\<close>

definition spec_success_status :: "nat \<Rightarrow> bool" where
  "spec_success_status n \<longleftrightarrow> 200 \<le> n \<and> n < 300"

definition spec_redirect_status :: "nat \<Rightarrow> bool" where
  "spec_redirect_status n \<longleftrightarrow> 300 \<le> n \<and> n < 400"

text \<open>The world after the example save: the image, then the record, at 1000160.\<close>

definition demo_saved_world :: world where
  "demo_saved_world =
     write_file (Path (str ''./generated-images'') (str ''new1.json''))
       (JsonText (JObject [(str ''id'', JString (str ''new1'')),
                           (str ''prompt'', JString (str ''a cat'')),
                           (str ''createdAt'', JString (str ''1970-01-01T00:16:40.160Z'')),
                           (str ''quality'', JString (str ''hd''))]))
       (write_file (Path (str ''./generated-images'') (str ''new1.png''))
          (ImageBytes [0x89, 0x50, 0x4E, 0x47]) (demo_world\<lparr>clock := 1000160\<rparr>))"




text \<open>The world after the example request \<open>{prompt: "a cat"}\<close> has been served.\<close>

definition demo_generated_world :: world where
  "demo_generated_world =
     write_file (Path (str ''./generated-images'') (str ''new1.json''))
       (JsonText (JObject [(str ''id'', JString (str ''new1'')),
                           (str ''prompt'', JString (str ''a cat'')),
                           (str ''createdAt'', JString (str ''1970-01-01T00:16:40.160Z'')),
                           (str ''size'', JString (str ''1024x1024'')),
                           (str ''quality'', JString (str ''standard''))]))
       (write_file (Path (str ''./generated-images'') (str ''new1.png''))
          (ImageBytes [0x89, 0x50, 0x4E, 0x47]) (demo_world\<lparr>clock := 1000160\<rparr>))"



section \<open>Request construction\<close>

lemma trim_Nil [simp]: "trim [] = []"
  by (simp add: trim_def)

lemma validate_iff:
  "validate r = Inr () \<longleftrightarrow> trim (req_prompt r) \<noteq> []"
  by (auto simp: validate_def)

lemma new_request_succeeds_iff:
  "(\<exists>r. new_ImageGenerationRequest p sz q = Inr r) \<longleftrightarrow> trim p \<noteq> []"
  by (auto simp: new_ImageGenerationRequest_def validate_def Let_def)

lemma new_request_fails:
  "trim p = [] \<Longrightarrow>
   new_ImageGenerationRequest p sz q = Inl (Error (str ''Prompt cannot be empty''))"
  by (auto simp: new_ImageGenerationRequest_def validate_def Let_def)

text \<open>
  Claim C10. Construction of an ImageGenerationRequest checks the prompt only: whenever
  the prompt is non-empty after trimming, any two strings given as size and quality,
  inside or outside the ImageSize and ImageQuality enumerations, are accepted and
  stored unchanged.
\<close>

theorem request_stores_size_quality_verbatim:
  "trim p \<noteq> [] \<Longrightarrow>
   new_ImageGenerationRequest p (JString sz) (JString q)
     = Inr \<lparr>req_prompt = p, req_size = JString sz, req_quality = JString q\<rparr>"
  by (auto simp: new_ImageGenerationRequest_def validate_def Let_def or_default_def)

theorem request_stores_size_quality_verbatim_witness:
  "trim (str ''a cat'') \<noteq> []
   \<and> str ''banana'' \<notin> {ImageSize_SQUARE, ImageSize_LANDSCAPE, ImageSize_PORTRAIT}
   \<and> str ''ultra'' \<notin> {ImageQuality_STANDARD, ImageQuality_HD}
   \<and> new_ImageGenerationRequest (str ''a cat'') (JString (str ''banana'')) (JString (str ''ultra''))
       = Inr \<lparr>req_prompt = str ''a cat'', req_size = JString (str ''banana''),
               req_quality = JString (str ''ultra'')\<rparr>"
proof -
  have t: "trim (str ''a cat'') \<noteq> []"
    by (simp add: trim_def str_def isWhiteSpace_def)
  have e: "str ''banana'' \<notin> {ImageSize_SQUARE, ImageSize_LANDSCAPE, ImageSize_PORTRAIT}"
    "str ''ultra'' \<notin> {ImageQuality_STANDARD, ImageQuality_HD}"
    by (simp_all add: str_def ImageSize_SQUARE_def ImageSize_LANDSCAPE_def
        ImageSize_PORTRAIT_def ImageQuality_STANDARD_def ImageQuality_HD_def)
  show ?thesis
    using t e request_stores_size_quality_verbatim [OF t, of "str ''banana''" "str ''ultra''"]
    by simp
qed

section \<open>Prompt enhancement\<close>

lemma length_trim_le: "length (trim t) \<le> length t"
proof -
  have "length (dropWhile isWhiteSpace (rev (dropWhile isWhiteSpace t)))
          \<le> length (rev (dropWhile isWhiteSpace t))"
    by (rule length_dropWhile_le)
  also have "\<dots> = length (dropWhile isWhiteSpace t)"
    by simp
  also have "\<dots> \<le> length t"
    by (rule length_dropWhile_le)
  finally show ?thesis
    by (simp add: trim_def)
qed

text \<open>
  Claim C4. Prompt enhancement always returns a prompt and never an error. When the
  completion call fails, or the completion is empty (or otherwise falsy), or it is not
  strictly longer than the original prompt, the original prompt comes back unchanged.
  Whenever something other than the original prompt comes back, the completion was a
  non-empty string strictly longer than the original, and what comes back is that
  completion, trimmed. The length the code compares is that of the trimmed completion:
  when it exceeds the original's, the trimmed completion is returned.
\<close>

theorem enhance_falls_back_or_returns_trimmed:
  "(\<forall>err. chatModel_invoke e (promptTemplate_format p) = InvokeError err
       \<longrightarrow> enhancePromptWithLangChain e p = p)
   \<and> (\<forall>c. chatModel_invoke e (promptTemplate_format p) = Content c
       \<longrightarrow> (\<not> truthy c
            \<or> (\<forall>t. c = JString t \<longrightarrow> length t \<le> length p \<or> length (trim t) \<le> length p))
       \<longrightarrow> enhancePromptWithLangChain e p = p)
   \<and> (\<forall>c. chatModel_invoke e (promptTemplate_format p) = Content c
       \<longrightarrow> enhancePromptWithLangChain e p \<noteq> p
       \<longrightarrow> (\<exists>t. c = JString t \<and> t \<noteq> [] \<and> length p < length t \<and> length p < length (trim t)
                \<and> enhancePromptWithLangChain e p = trim t))
   \<and> (\<forall>t. chatModel_invoke e (promptTemplate_format p) = Content (JString t)
       \<longrightarrow> length p < length (trim t)
       \<longrightarrow> enhancePromptWithLangChain e p = trim t)"
proof (intro conjI allI impI)
  fix err
  assume "chatModel_invoke e (promptTemplate_format p) = InvokeError err"
  then show "enhancePromptWithLangChain e p = p"
    by (simp add: enhancePromptWithLangChain_def enhance_attempt_def)
next
  fix c
  assume r: "chatModel_invoke e (promptTemplate_format p) = Content c"
    and h: "\<not> truthy c
            \<or> (\<forall>t. c = JString t \<longrightarrow> length t \<le> length p \<or> length (trim t) \<le> length p)"
  show "enhancePromptWithLangChain e p = p"
  proof (cases c)
    case (JString t)
    with h have "t = [] \<or> length t \<le> length p \<or> length (trim t) \<le> length p" by auto
    then have "\<not> length p < length (trim t)"
      using length_trim_le [of t] by auto
    with r JString show ?thesis
      by (simp add: enhancePromptWithLangChain_def enhance_attempt_def)
  qed (use r in \<open>simp_all add: enhancePromptWithLangChain_def enhance_attempt_def\<close>)
next
  fix c
  assume r: "chatModel_invoke e (promptTemplate_format p) = Content c"
    and ne: "enhancePromptWithLangChain e p \<noteq> p"
  show "\<exists>t. c = JString t \<and> t \<noteq> [] \<and> length p < length t \<and> length p < length (trim t)
            \<and> enhancePromptWithLangChain e p = trim t"
  proof (cases c)
    case (JString t)
    from r JString ne have lt: "length p < length (trim t)" and nonempty: "t \<noteq> []"
      by (auto simp: enhancePromptWithLangChain_def enhance_attempt_def split: if_splits)
    from lt have "length p < length t"
      using length_trim_le [of t] by simp
    moreover from r JString lt nonempty have "enhancePromptWithLangChain e p = trim t"
      by (simp add: enhancePromptWithLangChain_def enhance_attempt_def)
    ultimately show ?thesis using JString nonempty lt by simp
  qed (use r ne in \<open>auto simp: enhancePromptWithLangChain_def enhance_attempt_def split: if_splits\<close>)
next
  fix t
  assume r: "chatModel_invoke e (promptTemplate_format p) = Content (JString t)"
    and lt: "length p < length (trim t)"
  from lt have "t \<noteq> []" by auto
  with r lt show "enhancePromptWithLangChain e p = trim t"
    by (simp add: enhancePromptWithLangChain_def enhance_attempt_def)
qed

theorem enhance_falls_back_or_returns_trimmed_witness:
  "chatModel_invoke demo_env (promptTemplate_format (str ''a cat''))
     = Content (JString (str ''  a cat, painted in watercolor, soft lighting ''))
   \<and> enhancePromptWithLangChain demo_env (str ''a cat'') \<noteq> str ''a cat''
   \<and> enhancePromptWithLangChain demo_env (str ''a cat'')
       = str ''a cat, painted in watercolor, soft lighting''
   \<and> length (str ''a cat'') < length (str ''  a cat, painted in watercolor, soft lighting '')"
proof -
  have r: "chatModel_invoke demo_env (promptTemplate_format (str ''a cat''))
     = Content (JString (str ''  a cat, painted in watercolor, soft lighting ''))"
    by (simp add: demo_env_def)
  have ne: "enhancePromptWithLangChain demo_env (str ''a cat'') \<noteq> str ''a cat''"
    by (simp add: enhancePromptWithLangChain_def enhance_attempt_def demo_env_def str_def
        trim_def isWhiteSpace_def)
  from enhance_falls_back_or_returns_trimmed [of demo_env "str ''a cat''"] r ne
  have "\<exists>t. JString (str ''  a cat, painted in watercolor, soft lighting '') = JString t
          \<and> enhancePromptWithLangChain demo_env (str ''a cat'') = trim t"
    by blast
  then have "enhancePromptWithLangChain demo_env (str ''a cat'')
               = trim (str ''  a cat, painted in watercolor, soft lighting '')"
    by auto
  then show ?thesis using r ne
    by (simp add: str_def trim_def isWhiteSpace_def)
qed

section \<open>Download filename\<close>

lemma lower_char_range:
  "is_alnum c \<Longrightarrow>
   (0x30 \<le> lower_char c \<and> lower_char c \<le> 0x39) \<or> (0x61 \<le> lower_char c \<and> lower_char c \<le> 0x7A)"
  unfolding is_alnum_def lower_char_def
  by (auto simp: word_le_nat_alt unat_word_ariths)

lemma lower_char_dash: "lower_char 0x2D = 0x2D"
  by (simp add: lower_char_def)

lemma slug_nth:
  "i < min n (length p) \<Longrightarrow>
   toLowerCase (replace_non_alnum (substring0 n p)) ! i
     = (if is_alnum (p ! i) then lower_char (p ! i) else 0x2D)"
  by (simp add: toLowerCase_def replace_non_alnum_def substring0_def lower_char_dash)

lemma slug_chars:
  assumes "c \<in> set (toLowerCase (replace_non_alnum q))"
  shows "c = 0x2D \<or> (0x30 \<le> c \<and> c \<le> 0x39) \<or> (0x61 \<le> c \<and> c \<le> 0x7A)"
proof -
  from assms obtain x where c: "c = lower_char (if \<not> is_alnum x then 0x2D else x)"
    by (auto simp: toLowerCase_def replace_non_alnum_def)
  show ?thesis
  proof (cases "is_alnum x")
    case True
    with c lower_char_range [of x] show ?thesis by simp
  next
    case False
    with c show ?thesis by (simp add: lower_char_dash)
  qed
qed

text \<open>
  Claim C8, as the code has it. When a record with a string prompt is stored under the
  id, the download filename is \<open>artwork-\<close>, the slug, a dash, the id and \<open>.png\<close>. The
  slug is the first 50 code units of the prompt (all of it when shorter), position by
  position: a code unit that is not an ASCII letter or digit becomes a dash, any other
  becomes its lower case; so the slug holds only dashes, digits and lower-case letters.
  For the prompt \<open>A Beautiful!! Sunset@Sea\<close> and the id \<open>abc123\<close> the two exclamation
  marks and the space after them give three dashes:
  \<open>artwork-a-beautiful---sunset-sea-abc123.png\<close>.
\<close>

theorem download_filename_rule:
  assumes "findById e s anId = Some m" and "meta_prompt m = JString p"
  shows "getDownloadFilename e s anId
           = Inr (str ''artwork-'' @ toLowerCase (replace_non_alnum (substring0 50 p))
                  @ str ''-'' @ anId @ str ''.png'')
         \<and> length (toLowerCase (replace_non_alnum (substring0 50 p))) = min 50 (length p)
         \<and> (\<forall>i < min 50 (length p).
               toLowerCase (replace_non_alnum (substring0 50 p)) ! i
                 = (if is_alnum (p ! i) then lower_char (p ! i) else 0x2D))
         \<and> (\<forall>c \<in> set (toLowerCase (replace_non_alnum (substring0 50 p))).
               c = 0x2D \<or> (0x30 \<le> c \<and> c \<le> 0x39) \<or> (0x61 \<le> c \<and> c \<le> 0x7A))"
proof (intro conjI allI impI ballI)
  show "getDownloadFilename e s anId
           = Inr (str ''artwork-'' @ toLowerCase (replace_non_alnum (substring0 50 p))
                  @ str ''-'' @ anId @ str ''.png'')"
    using assms by (simp add: getDownloadFilename_def)
  show "length (toLowerCase (replace_non_alnum (substring0 50 p))) = min 50 (length p)"
    by (simp add: toLowerCase_def replace_non_alnum_def substring0_def min.commute)
next
  fix i assume "i < min 50 (length p)"
  then show "toLowerCase (replace_non_alnum (substring0 50 p)) ! i
                 = (if is_alnum (p ! i) then lower_char (p ! i) else 0x2D)"
    by (rule slug_nth)
next
  fix c assume "c \<in> set (toLowerCase (replace_non_alnum (substring0 50 p)))"
  then show "c = 0x2D \<or> (0x30 \<le> c \<and> c \<le> 0x39) \<or> (0x61 \<le> c \<and> c \<le> 0x7A)"
    by (rule slug_chars)
qed

lemma demo_findById_abc123:
  "findById demo_env demo_world (str ''abc123'')
     = Some \<lparr>meta_id = JString (str ''abc123''),
             meta_prompt = JString (str ''A Beautiful!! Sunset@Sea''),
             meta_createdAt = ValidDate 2000,
             meta_size = JString (str ''1024x1024''),
             meta_quality = JString (str ''standard'')\<rparr>"
  by (simp add: findById_def getMetadataPath_def path_join_def existsSync_def read_metadata_def
      readFileSync_def fromJSON_def get_property_def demo_env_def demo_world_def demo_record_def
      demo_dates_def str_def)

theorem download_filename_rule_witness:
  "findById demo_env demo_world (str ''abc123'')
     = Some \<lparr>meta_id = JString (str ''abc123''),
             meta_prompt = JString (str ''A Beautiful!! Sunset@Sea''),
             meta_createdAt = ValidDate 2000,
             meta_size = JString (str ''1024x1024''),
             meta_quality = JString (str ''standard'')\<rparr>
   \<and> getDownloadFilename demo_env demo_world (str ''abc123'')
       = Inr (str ''artwork-a-beautiful---sunset-sea-abc123.png'')"
proof -
  note f = demo_findById_abc123
  have "getDownloadFilename demo_env demo_world (str ''abc123'')
           = Inr (str ''artwork-''
                  @ toLowerCase (replace_non_alnum (substring0 50 (str ''A Beautiful!! Sunset@Sea'')))
                  @ str ''-'' @ str ''abc123'' @ str ''.png'')"
    using download_filename_rule [OF f, of "str ''A Beautiful!! Sunset@Sea''"] by simp
  then have "getDownloadFilename demo_env demo_world (str ''abc123'')
       = Inr (str ''artwork-a-beautiful---sunset-sea-abc123.png'')"
    by (simp add: str_def toLowerCase_def replace_non_alnum_def substring0_def is_alnum_def
        lower_char_def)
  with f show ?thesis by simp
qed

text \<open>
  The filename of the specification's example, with two dashes between
  \<open>beautiful\<close> and \<open>sunset\<close>, is not the one the rule produces for that prompt.
\<close>

theorem download_filename_example_counterexample:
  "map_option meta_prompt (findById demo_env demo_world (str ''abc123''))
     = Some (JString (str ''A Beautiful!! Sunset@Sea''))
   \<and> getDownloadFilename demo_env demo_world (str ''abc123'')
       = Inr (str ''artwork-a-beautiful---sunset-sea-abc123.png'')
   \<and> getDownloadFilename demo_env demo_world (str ''abc123'')
       \<noteq> Inr (str ''artwork-a-beautiful--sunset-sea-abc123.png'')"
proof -
  have "getDownloadFilename demo_env demo_world (str ''abc123'')
           = Inr (str ''artwork-''
                  @ toLowerCase (replace_non_alnum (substring0 50 (str ''A Beautiful!! Sunset@Sea'')))
                  @ str ''-'' @ str ''abc123'' @ str ''.png'')"
    by (simp add: getDownloadFilename_def demo_findById_abc123)
  then have "getDownloadFilename demo_env demo_world (str ''abc123'')
       = Inr (str ''artwork-a-beautiful---sunset-sea-abc123.png'')"
    by (simp add: str_def toLowerCase_def replace_non_alnum_def substring0_def is_alnum_def
        lower_char_def)
  moreover have "map_option meta_prompt (findById demo_env demo_world (str ''abc123''))
     = Some (JString (str ''A Beautiful!! Sunset@Sea''))"
    by (simp add: demo_findById_abc123)
  moreover have "str ''artwork-a-beautiful---sunset-sea-abc123.png''
       \<noteq> str ''artwork-a-beautiful--sunset-sea-abc123.png''"
    by (simp add: str_def)
  ultimately show ?thesis by simp
qed

section \<open>The Generate handler and request validation\<close>

text \<open>
  Claim C2. Construction of a request succeeds exactly for the prompts that are
  non-empty after trimming (\<open>new_request_succeeds_iff\<close>, \<open>new_request_fails\<close>), and the
  handler answers an empty prompt with 400. A prompt of spaces only passes the
  handler's own check, fails in the constructor, and the failure lands in the
  handler's catch-all: the answer is 500, not 400.
\<close>

theorem whitespace_prompt_answers_500:
  "generate_handler e uuid [(str ''prompt'', JString (str ''   ''))] s
     = Some (Json 500 [(str ''error'', JString (str ''Failed to generate image'')),
                       (str ''message'', JString (str ''Prompt cannot be empty''))], s)"
  by (simp add: generate_handler_def get_property_def new_ImageGenerationRequest_def
      validate_def or_default_def trim_def isWhiteSpace_def str_def Let_def)

theorem whitespace_prompt_answers_500_witness:
  "generate_handler demo_env (str ''new1'') [(str ''prompt'', JString (str ''   ''))] demo_world
     = Some (Json 500 [(str ''error'', JString (str ''Failed to generate image'')),
                       (str ''message'', JString (str ''Prompt cannot be empty''))], demo_world)
   \<and> trim (str ''   '') = []"
  using whitespace_prompt_answers_500 [of demo_env "str ''new1''" demo_world]
  by (simp add: trim_def isWhiteSpace_def str_def)

lemma empty_prompt_answers_400:
  "generate_handler e uuid [(str ''prompt'', JString [])] s
     = Some (Json 400 [(str ''error'', JString (str ''Prompt is required''))], s)"
  by (simp add: generate_handler_def get_property_def Let_def)

section \<open>Retrieve by id\<close>

lemma findById_absent:
  "\<not> existsSync s (getMetadataPath e i) \<Longrightarrow> findById e s i = None"
  by (simp add: findById_def)

lemma not_found_messages_differ: "str ''Image not found'' \<noteq> str ''Image file not found''"
  by (simp add: str_def)

text \<open>
  Claim C9. Retrieval by id tells two not-found cases apart. An id with no readable
  record (in particular one with no metadata file) fails with \<open>Image not found\<close> and
  the handler answers 404. An id whose record exists while the image file is missing
  fails with the different message \<open>Image file not found\<close>, also answered with 404.
  The handler sends a file only when both the record and the image file exist, and
  then it is the image path of that id; with both present and a valid date in the
  record it does send it.
\<close>

theorem getById_not_found_cases:
  "(\<not> existsSync s (getMetadataPath e i) \<longrightarrow> findById e s i = None)
   \<and> (findById e s i = None \<longrightarrow>
        getImageById e s i = Inl (Error (str ''Image not found''))
        \<and> getById e s i = Json 404 [(str ''error'', JString (str ''Image not found''))])
   \<and> (\<forall>m. findById e s i = Some m \<and> \<not> exists e s i \<longrightarrow>
        getImageById e s i = Inl (Error (str ''Image file not found''))
        \<and> getById e s i = Json 404 [(str ''error'', JString (str ''Image file not found''))])
   \<and> str ''Image not found'' \<noteq> str ''Image file not found''
   \<and> (\<forall>p. getById e s i = SendFile p \<longrightarrow>
        (\<exists>m. findById e s i = Some m) \<and> exists e s i \<and> p = getImagePath e i)
   \<and> (\<forall>m. findById e s i = Some m \<and> exists e s i \<and> meta_createdAt m \<noteq> InvalidDate \<longrightarrow>
        getById e s i = SendFile (getImagePath e i))"
proof (intro conjI allI impI)
  show "findById e s i = None" if "\<not> existsSync s (getMetadataPath e i)"
    using that by (rule findById_absent)
  show "str ''Image not found'' \<noteq> str ''Image file not found''"
    by (rule not_found_messages_differ)
next
  assume n: "findById e s i = None"
  then show "getImageById e s i = Inl (Error (str ''Image not found''))"
    by (simp add: getImageById_def)
  then show "getById e s i = Json 404 [(str ''error'', JString (str ''Image not found''))]"
    by (simp add: getById_def not_found_reply_def)
next
  fix m assume h: "findById e s i = Some m \<and> \<not> exists e s i"
  then show g: "getImageById e s i = Inl (Error (str ''Image file not found''))"
    by (simp add: getImageById_def)
  then show "getById e s i = Json 404 [(str ''error'', JString (str ''Image file not found''))]"
    by (simp add: getById_def not_found_reply_def)
next
  fix p assume sf: "getById e s i = SendFile p"
  then obtain j where g: "getImageById e s i = Inr (p, j)"
    by (auto simp: getById_def not_found_reply_def split: sum.splits if_splits)
  from g show "\<exists>m. findById e s i = Some m"
    by (auto simp: getImageById_def split: option.splits)
  from g show "exists e s i"
    by (auto simp: getImageById_def Let_def split: option.splits if_splits)
  from g show "p = getImagePath e i"
    by (auto simp: getImageById_def Let_def split: option.splits if_splits sum.splits)
next
  fix m assume h: "findById e s i = Some m \<and> exists e s i \<and> meta_createdAt m \<noteq> InvalidDate"
  then obtain t where "meta_createdAt m = ValidDate t"
    by (cases "meta_createdAt m") auto
  with h show "getById e s i = SendFile (getImagePath e i)"
    by (simp add: getById_def getImageById_def toJSON_def)
qed

lemma demo_findById_orphan:
  "findById demo_env demo_world (str ''orphan'')
     = Some \<lparr>meta_id = JString (str ''orphan''),
             meta_prompt = JString (str ''a lighthouse''),
             meta_createdAt = ValidDate 1000,
             meta_size = JString (str ''1024x1024''),
             meta_quality = JString (str ''standard'')\<rparr>"
  by (simp add: findById_def getMetadataPath_def path_join_def existsSync_def read_metadata_def
      readFileSync_def fromJSON_def get_property_def demo_env_def demo_world_def demo_record_def
      demo_dates_def str_def)

lemma demo_exists:
  "exists demo_env demo_world (str ''abc123'')" "\<not> exists demo_env demo_world (str ''orphan'')"
  by (simp_all add: exists_def existsSync_def getImagePath_def path_join_def demo_env_def
      demo_world_def str_def)

lemma demo_findById_nothing: "\<not> existsSync demo_world (getMetadataPath demo_env (str ''nothing''))"
  by (simp add: existsSync_def getMetadataPath_def path_join_def demo_env_def demo_world_def str_def)


theorem getById_not_found_cases_witness:
  "\<not> existsSync demo_world (getMetadataPath demo_env (str ''nothing''))
   \<and> getById demo_env demo_world (str ''nothing'')
       = Json 404 [(str ''error'', JString (str ''Image not found''))]
   \<and> findById demo_env demo_world (str ''orphan'') \<noteq> None
   \<and> \<not> exists demo_env demo_world (str ''orphan'')
   \<and> getById demo_env demo_world (str ''orphan'')
       = Json 404 [(str ''error'', JString (str ''Image file not found''))]
   \<and> findById demo_env demo_world (str ''abc123'') \<noteq> None
   \<and> exists demo_env demo_world (str ''abc123'')
   \<and> getById demo_env demo_world (str ''abc123'')
       = SendFile (Path (str ''./generated-images'') (str ''abc123.png''))"
proof -
  note a = getById_not_found_cases [of demo_world demo_env "str ''nothing''"]
  note b = getById_not_found_cases [of demo_world demo_env "str ''orphan''"]
  note c = getById_not_found_cases [of demo_world demo_env "str ''abc123''"]
  have n: "findById demo_env demo_world (str ''nothing'') = None"
    by (rule a [THEN conjunct1, THEN mp, OF demo_findById_nothing])
  have 1: "getById demo_env demo_world (str ''nothing'')
       = Json 404 [(str ''error'', JString (str ''Image not found''))]"
    by (rule a [THEN conjunct2, THEN conjunct1, THEN mp, OF n, THEN conjunct2])
  have 2: "getById demo_env demo_world (str ''orphan'')
       = Json 404 [(str ''error'', JString (str ''Image file not found''))]"
    by (rule b [THEN conjunct2, THEN conjunct2, THEN conjunct1, THEN spec, THEN mp,
          OF conjI [OF demo_findById_orphan demo_exists(2)], THEN conjunct2])
  have v: "meta_createdAt \<lparr>meta_id = JString (str ''abc123''),
             meta_prompt = JString (str ''A Beautiful!! Sunset@Sea''),
             meta_createdAt = ValidDate 2000,
             meta_size = JString (str ''1024x1024''),
             meta_quality = JString (str ''standard'')\<rparr> \<noteq> InvalidDate"
    by simp
  have "getById demo_env demo_world (str ''abc123'') = SendFile (getImagePath demo_env (str ''abc123''))"
    by (rule c [THEN conjunct2, THEN conjunct2, THEN conjunct2, THEN conjunct2, THEN conjunct2,
          THEN spec, THEN mp, OF conjI [OF demo_findById_abc123 conjI [OF demo_exists(1) v]]])
  then have 3: "getById demo_env demo_world (str ''abc123'')
       = SendFile (Path (str ''./generated-images'') (str ''abc123.png''))"
    by (simp add: getImagePath_def path_join_def demo_env_def str_def)
  have 4: "findById demo_env demo_world (str ''orphan'') \<noteq> None"
    "findById demo_env demo_world (str ''abc123'') \<noteq> None"
    by (simp_all only: demo_findById_orphan demo_findById_abc123 option.distinct not_False_eq_True)
  from 1 2 3 4 demo_findById_nothing demo_exists show ?thesis
    by (intro conjI)
qed

section \<open>Download and save\<close>

lemma after_response_simps [simp]:
  "directories (after_response r s) = directories s"
  "files (after_response r s) = files s"
  "writes (after_response r s) = writes s"
  "clock (after_response r s) = clock s + int (elapsed r)"
  by (simp_all add: after_response_def)

lemma write_file_simps [simp]:
  "directories (write_file p c s) = directories s"
  "files (write_file p c s) = AList.update p c (files s)"
  "writes (write_file p c s) = writes s @ [p]"
  "clock (write_file p c s) = clock s"
  by (simp_all add: write_file_def)

lemma download_post_after:
  "download_post e p (after_response r s) y \<Longrightarrow> download_post e p s y"
  by (auto simp: download_post_def split: sum.splits)

lemma downloadImage_post:
  assumes "downloadImage e url p s = Some y"
  shows "download_post e p s y"
proof (rule downloadImage.raw_induct [where P = "\<lambda>e url p s y. download_post e p s y", OF _ assms])
  fix dl :: "env \<Rightarrow> jsstring \<Rightarrow> path \<Rightarrow> world \<Rightarrow> ((js_error + unit) \<times> world) option"
    and e url p s y
  assume IH: "\<And>e url p s y. dl e url p s = Some y \<Longrightarrow> download_post e p s y"
  assume step: "(case protocol_get e url of
      Response r \<Rightarrow>
        if statusCode r = 200
        then case write_error e p of
             None \<Rightarrow> Some (Inr (), write_file p (ImageBytes (body r)) (after_response r s))
             | Some err \<Rightarrow> Some (Inl err, after_response r s)
        else if statusCode r = 301 \<or> statusCode r = 302
             then case location r of
                  None \<Rightarrow> Some (Inl (Error (str ''Redirect without location header'')), after_response r s)
                  | Some l \<Rightarrow>
                      if l \<noteq> []
                      then dl e l p (after_response r s)
                      else Some (Inl (Error (str ''Redirect without location header'')), after_response r s)
             else Some (Inl (Error (str ''Failed to download image: '' @ decimal (statusCode r))), after_response r s)
      | RequestError err \<Rightarrow> Some (Inl err, s)) = Some y"
  show "download_post e p s y"
  proof (cases "protocol_get e url")
    case (RequestError err)
    with step show ?thesis by (auto simp: download_post_def)
  next
    case (Response r)
    consider "statusCode r = 200" | "statusCode r \<noteq> 200" "statusCode r = 301 \<or> statusCode r = 302"
      | "statusCode r \<noteq> 200" "\<not> (statusCode r = 301 \<or> statusCode r = 302)"
      by blast
    then show ?thesis
    proof cases
      case 1
      with step Response show ?thesis
        by (fastforce simp: download_post_def split: option.splits)
    next
      case 2
      show ?thesis
      proof (cases "location r")
        case None
        with step Response 2 show ?thesis by (auto simp: download_post_def)
      next
        case (Some l)
        show ?thesis
        proof (cases "l = []")
          case True
          with step Response 2 Some show ?thesis by (auto simp: download_post_def)
        next
          case False
          with step Response 2 Some have "dl e l p (after_response r s) = Some y" by simp
          then have "download_post e p (after_response r s) y" by (rule IH)
          then show ?thesis by (rule download_post_after)
        qed
      qed
    next
      case 3
      with step Response show ?thesis by (auto simp: download_post_def)
    qed
  qed
qed

text \<open>
  Claim C7, as the code has it. The download succeeds only on a response with status
  200 (a success status), and then the body is what is written. Exactly the statuses
  301 and 302 are followed, to the Location header when it is present and non-empty;
  a 301 or 302 without one fails with \<open>Redirect without location header\<close>. Every other
  status, the remaining 2xx and 3xx codes included, fails with
  \<open>Failed to download image:\<close> and the code.
\<close>

theorem downloadImage_by_status:
  "(\<forall>r. protocol_get e url = Response r \<and> statusCode r = 200 \<and> write_error e p = None \<longrightarrow>
        downloadImage e url p s
          = Some (Inr (), write_file p (ImageBytes (body r)) (after_response r s)))
   \<and> (\<forall>r l. protocol_get e url = Response r \<and> (statusCode r = 301 \<or> statusCode r = 302)
            \<and> location r = Some l \<and> l \<noteq> [] \<longrightarrow>
        downloadImage e url p s = downloadImage e l p (after_response r s))
   \<and> (\<forall>r. protocol_get e url = Response r \<and> (statusCode r = 301 \<or> statusCode r = 302)
          \<and> (location r = None \<or> location r = Some []) \<longrightarrow>
        downloadImage e url p s
          = Some (Inl (Error (str ''Redirect without location header'')), after_response r s))
   \<and> (\<forall>r. protocol_get e url = Response r \<and> statusCode r \<notin> {200, 301, 302} \<longrightarrow>
        downloadImage e url p s
          = Some (Inl (Error (str ''Failed to download image: '' @ decimal (statusCode r))),
                  after_response r s))
   \<and> (\<forall>s'. downloadImage e url p s = Some (Inr (), s') \<longrightarrow>
        (\<exists>u r. protocol_get e u = Response r \<and> statusCode r = 200 \<and> spec_success_status (statusCode r)
               \<and> files s' = AList.update p (ImageBytes (body r)) (files s)))"
proof (intro conjI allI impI)
  fix r assume "protocol_get e url = Response r \<and> statusCode r = 200 \<and> write_error e p = None"
  then show "downloadImage e url p s
          = Some (Inr (), write_file p (ImageBytes (body r)) (after_response r s))"
    by (subst downloadImage.simps) simp
next
  fix r l assume "protocol_get e url = Response r \<and> (statusCode r = 301 \<or> statusCode r = 302)
            \<and> location r = Some l \<and> l \<noteq> []"
  then show "downloadImage e url p s = downloadImage e l p (after_response r s)"
    by (subst downloadImage.simps) auto
next
  fix r assume "protocol_get e url = Response r \<and> (statusCode r = 301 \<or> statusCode r = 302)
          \<and> (location r = None \<or> location r = Some [])"
  then show "downloadImage e url p s
          = Some (Inl (Error (str ''Redirect without location header'')), after_response r s)"
    by (subst downloadImage.simps) auto
next
  fix r assume "protocol_get e url = Response r \<and> statusCode r \<notin> {200, 301, 302}"
  then show "downloadImage e url p s
          = Some (Inl (Error (str ''Failed to download image: '' @ decimal (statusCode r))),
                  after_response r s)"
    by (subst downloadImage.simps) simp
next
  fix s' assume "downloadImage e url p s = Some (Inr (), s')"
  from downloadImage_post [OF this]
  show "\<exists>u r. protocol_get e u = Response r \<and> statusCode r = 200 \<and> spec_success_status (statusCode r)
               \<and> files s' = AList.update p (ImageBytes (body r)) (files s)"
    by (fastforce simp: download_post_def spec_success_status_def)
qed

lemma demo_protocol_get:
  "protocol_get demo_env (str ''https://cdn.example/img?sig=1'')
     = Response \<lparr>statusCode = 302, location = Some (str ''https://cdn.example/final.png''),
                 body = [], elapsed = 40\<rparr>"
  "protocol_get demo_env (str ''https://cdn.example/final.png'')
     = Response \<lparr>statusCode = 200, location = None, body = [0x89, 0x50, 0x4E, 0x47],
                 elapsed = 120\<rparr>"
  "protocol_get demo_env (str ''https://cdn.example/moved'')
     = Response \<lparr>statusCode = 307, location = Some (str ''https://cdn.example/final.png''),
                 body = [], elapsed = 30\<rparr>"
  by (simp_all add: protocol_get_def demo_env_def demo_responses_def str_def)

lemma demo_write_error: "write_error demo_env p = None"
  by (simp add: demo_env_def)

lemma demo_new_Date_env: "new_Date demo_env = demo_new_Date"
  by (simp add: demo_env_def)

lemma demo_download:
  "downloadImage demo_env (str ''https://cdn.example/final.png'') p s
     = Some (Inr (), write_file p (ImageBytes [0x89, 0x50, 0x4E, 0x47])
                       (s\<lparr>clock := clock s + 120\<rparr>))"
  by (subst downloadImage.simps) (simp add: demo_protocol_get demo_write_error after_response_def)

theorem downloadImage_by_status_witness:
  "protocol_get demo_env (str ''https://cdn.example/img?sig=1'')
     = Response \<lparr>statusCode = 302, location = Some (str ''https://cdn.example/final.png''),
                 body = [], elapsed = 40\<rparr>
   \<and> downloadImage demo_env (str ''https://cdn.example/img?sig=1'')
         (Path (str ''./generated-images'') (str ''new.png'')) demo_world
       = downloadImage demo_env (str ''https://cdn.example/final.png'')
           (Path (str ''./generated-images'') (str ''new.png'')) (demo_world\<lparr>clock := 1000040\<rparr>)
   \<and> downloadImage demo_env (str ''https://cdn.example/final.png'')
         (Path (str ''./generated-images'') (str ''new.png'')) (demo_world\<lparr>clock := 1000040\<rparr>)
       = Some (Inr (), write_file (Path (str ''./generated-images'') (str ''new.png''))
                         (ImageBytes [0x89, 0x50, 0x4E, 0x47]) (demo_world\<lparr>clock := 1000160\<rparr>))"
proof -
  let ?r = "\<lparr>statusCode = 302, location = Some (str ''https://cdn.example/final.png''),
                 body = [], elapsed = 40\<rparr>"
  let ?p = "Path (str ''./generated-images'') (str ''new.png'')"
  have nonempty: "str ''https://cdn.example/final.png'' \<noteq> []"
    by (simp add: str_def)
  have c: "clock demo_world = 1000000"
    by (simp add: demo_world_def)
  have "downloadImage demo_env (str ''https://cdn.example/img?sig=1'') ?p demo_world
       = downloadImage demo_env (str ''https://cdn.example/final.png'') ?p
           (after_response ?r demo_world)"
    by (rule downloadImage_by_status [THEN conjunct2, THEN conjunct1, THEN spec, THEN spec, THEN mp])
       (simp add: demo_protocol_get nonempty)
  then show ?thesis
    by (simp add: demo_protocol_get(1) demo_download after_response_def c)
qed

text \<open>
  A 307 response is a redirect and carries a Location that serves the image, yet the
  download does not follow it: it fails with the status in the message.
\<close>

theorem redirect_307_not_followed_counterexample:
  "protocol_get demo_env (str ''https://cdn.example/moved'')
     = Response \<lparr>statusCode = 307, location = Some (str ''https://cdn.example/final.png''),
                 body = [], elapsed = 30\<rparr>
   \<and> spec_redirect_status 307
   \<and> downloadImage demo_env (str ''https://cdn.example/moved'')
         (Path (str ''./generated-images'') (str ''new.png'')) demo_world
       = Some (Inl (Error (str ''Failed to download image: 307'')), demo_world\<lparr>clock := 1000030\<rparr>)
   \<and> downloadImage demo_env (str ''https://cdn.example/final.png'')
         (Path (str ''./generated-images'') (str ''new.png'')) (demo_world\<lparr>clock := 1000030\<rparr>)
       = Some (Inr (), write_file (Path (str ''./generated-images'') (str ''new.png''))
                         (ImageBytes [0x89, 0x50, 0x4E, 0x47]) (demo_world\<lparr>clock := 1000150\<rparr>))"
proof -
  have c: "clock demo_world = 1000000"
    by (simp add: demo_world_def)
  have d: "str ''Failed to download image: '' @ decimal 307 = str ''Failed to download image: 307''"
    by (simp add: decimal.simps str_def)
  have "downloadImage demo_env (str ''https://cdn.example/moved'')
         (Path (str ''./generated-images'') (str ''new.png'')) demo_world
       = Some (Inl (Error (str ''Failed to download image: 307'')), demo_world\<lparr>clock := 1000030\<rparr>)"
    by (subst downloadImage.simps) (simp add: demo_protocol_get after_response_def c d)
  then show ?thesis
    by (simp add: demo_protocol_get(3) demo_download spec_redirect_status_def c)
qed

lemma image_path_neq_metadata_path: "getImagePath e i \<noteq> getMetadataPath e i"
  by (simp add: getImagePath_def getMetadataPath_def path_join_def str_def)

lemma save_cases:
  assumes "save e uuid url pr sz q s = Some (res, s')"
  obtains
    (download_failed) err where "downloadImage e url (getImagePath e uuid) s = Some (Inl err, s')"
      "res = Inl err"
  | (metadata_failed) s1 err where "downloadImage e url (getImagePath e uuid) s = Some (Inr (), s1)"
      "write_error e (getMetadataPath e uuid) = Some err" "res = Inl err" "s' = s1"
  | (saved) s1 where "downloadImage e url (getImagePath e uuid) s = Some (Inr (), s1)"
      "write_error e (getMetadataPath e uuid) = None" "res = Inr uuid"
      "s' = write_file (getMetadataPath e uuid)
              (JSON_stringify (JObject [(str ''id'', JString uuid),
                        (str ''prompt'', JString pr),
                        (str ''createdAt'', JString (toISOString e (clock s1))),
                        (str ''size'', sz),
                        (str ''quality'', q)])) s1"
  using assms
  by (auto simp: save_def Let_def toJSON_def split: option.splits sum.splits prod.splits)

text \<open>
  Claim C3. In every finished call of \<open>save\<close> the metadata file is written only after
  the download has written the image file: a successful call appends exactly the
  image path and then the metadata path to the writes, with the image file in place;
  a failed call has written nothing or the image alone, and leaves the metadata path
  as it was. When the download fails, \<open>save\<close> fails with the same error and nothing
  is written.
\<close>

theorem save_writes_image_before_metadata:
  assumes "save e uuid url pr sz q s = Some (res, s')"
  shows "(case res of
            Inr i \<Rightarrow> i = uuid
                     \<and> writes s' = writes s @ [getImagePath e uuid, getMetadataPath e uuid]
                     \<and> (\<exists>b. map_of (files s') (getImagePath e uuid) = Some (ImageBytes b))
                     \<and> existsSync s' (getMetadataPath e uuid)
          | Inl err \<Rightarrow> (writes s' = writes s \<or> writes s' = writes s @ [getImagePath e uuid])
                       \<and> map_of (files s') (getMetadataPath e uuid)
                           = map_of (files s) (getMetadataPath e uuid))
         \<and> (\<forall>err s1. downloadImage e url (getImagePath e uuid) s = Some (Inl err, s1) \<longrightarrow>
               res = Inl err \<and> s' = s1 \<and> writes s' = writes s \<and> files s' = files s)"
  using assms
proof (cases rule: save_cases)
  case (download_failed err)
  from downloadImage_post [OF download_failed(1)] download_failed show ?thesis
    by (auto simp: download_post_def)
next
  case (metadata_failed s1 err)
  from downloadImage_post [OF metadata_failed(1)] metadata_failed show ?thesis
    using image_path_neq_metadata_path [of e uuid]
    by (auto simp: download_post_def update_conv')
next
  case (saved s1)
  from downloadImage_post [OF saved(1)] saved show ?thesis
    using image_path_neq_metadata_path [of e uuid]
    by (auto simp: download_post_def update_conv' existsSync_def)
qed

lemma demo_download_redirect:
  "downloadImage demo_env (str ''https://cdn.example/img?sig=1'') p s
     = Some (Inr (), write_file p (ImageBytes [0x89, 0x50, 0x4E, 0x47])
                       (s\<lparr>clock := clock s + 160\<rparr>))"
proof -
  have "str ''https://cdn.example/final.png'' \<noteq> []"
    by (simp add: str_def)
  then show ?thesis
    by (subst downloadImage.simps) (simp add: demo_protocol_get demo_download after_response_def)
qed

lemma demo_download_missing:
  "downloadImage demo_env (str ''https://cdn.example/gone'') p s
     = Some (Inl (Error (str ''Failed to download image: 404'')), s\<lparr>clock := clock s + 5\<rparr>)"
proof -
  have "protocol_get demo_env (str ''https://cdn.example/gone'')
          = Response \<lparr>statusCode = 404, location = None, body = [], elapsed = 5\<rparr>"
    by (simp add: protocol_get_def demo_env_def demo_responses_def str_def)
  moreover have "str ''Failed to download image: '' @ decimal 404 = str ''Failed to download image: 404''"
    by (simp add: decimal.simps str_def)
  ultimately show ?thesis
    by (subst downloadImage.simps) (simp add: after_response_def)
qed

lemma demo_paths:
  "getImagePath demo_env (str ''new1'') = Path (str ''./generated-images'') (str ''new1.png'')"
  "getMetadataPath demo_env (str ''new1'') = Path (str ''./generated-images'') (str ''new1.json'')"
  by (simp_all add: getImagePath_def getMetadataPath_def path_join_def demo_env_def str_def)

lemma demo_save:
  "save demo_env (str ''new1'') (str ''https://cdn.example/img?sig=1'') (str ''a cat'')
      JUndefined (JString (str ''hd'')) demo_world
     = Some (Inr (str ''new1''), demo_saved_world)"
proof -
  have c: "clock demo_world = 1000000"
    by (simp add: demo_world_def)
  have t: "toISOString demo_env 1000160 = str ''1970-01-01T00:16:40.160Z''"
    by (simp add: demo_env_def demo_dates_def)
  show ?thesis
    by (simp add: save_def Let_def demo_download_redirect toJSON_def demo_write_error demo_paths
        demo_saved_world_def c t write_file_def)
qed

lemma demo_save_fails:
  "save demo_env (str ''new1'') (str ''https://cdn.example/gone'') (str ''a cat'')
      JUndefined (JString (str ''hd'')) demo_world
     = Some (Inl (Error (str ''Failed to download image: 404'')), demo_world\<lparr>clock := 1000005\<rparr>)"
proof -
  have c: "clock demo_world = 1000000"
    by (simp add: demo_world_def)
  show ?thesis
    by (simp add: save_def Let_def demo_download_missing c)
qed

theorem save_writes_image_before_metadata_witness:
  "save demo_env (str ''new1'') (str ''https://cdn.example/img?sig=1'') (str ''a cat'')
      JUndefined (JString (str ''hd'')) demo_world
     = Some (Inr (str ''new1''), demo_saved_world)
   \<and> writes demo_saved_world
       = writes demo_world @ [Path (str ''./generated-images'') (str ''new1.png''),
                              Path (str ''./generated-images'') (str ''new1.json'')]
   \<and> save demo_env (str ''new1'') (str ''https://cdn.example/gone'') (str ''a cat'')
      JUndefined (JString (str ''hd'')) demo_world
     = Some (Inl (Error (str ''Failed to download image: 404'')), demo_world\<lparr>clock := 1000005\<rparr>)
   \<and> map_of (files (demo_world\<lparr>clock := 1000005\<rparr>)) (Path (str ''./generated-images'') (str ''new1.json''))
       = map_of (files demo_world) (Path (str ''./generated-images'') (str ''new1.json''))"
proof -
  note a = save_writes_image_before_metadata [OF demo_save]
  note b = save_writes_image_before_metadata [OF demo_save_fails]
  from a have "writes demo_saved_world
       = writes demo_world @ [Path (str ''./generated-images'') (str ''new1.png''),
                              Path (str ''./generated-images'') (str ''new1.json'')]"
    by (simp add: demo_paths)
  moreover from b have "map_of (files (demo_world\<lparr>clock := 1000005\<rparr>))
         (Path (str ''./generated-images'') (str ''new1.json''))
       = map_of (files demo_world) (Path (str ''./generated-images'') (str ''new1.json''))"
    by (simp add: demo_paths)
  ultimately show ?thesis
    using demo_save demo_save_fails by simp
qed

lemma get_property_stored:
  "get_property (filter (\<lambda>kv. snd kv \<noteq> JUndefined)
       [(str ''id'', JString i), (str ''prompt'', JString pr), (str ''createdAt'', JString d),
        (str ''size'', sz), (str ''quality'', q)]) ''id'' = JString i"
  "get_property (filter (\<lambda>kv. snd kv \<noteq> JUndefined)
       [(str ''id'', JString i), (str ''prompt'', JString pr), (str ''createdAt'', JString d),
        (str ''size'', sz), (str ''quality'', q)]) ''prompt'' = JString pr"
  "get_property (filter (\<lambda>kv. snd kv \<noteq> JUndefined)
       [(str ''id'', JString i), (str ''prompt'', JString pr), (str ''createdAt'', JString d),
        (str ''size'', sz), (str ''quality'', q)]) ''createdAt'' = JString d"
  "get_property (filter (\<lambda>kv. snd kv \<noteq> JUndefined)
       [(str ''id'', JString i), (str ''prompt'', JString pr), (str ''createdAt'', JString d),
        (str ''size'', sz), (str ''quality'', q)]) ''size'' = sz"
  "get_property (filter (\<lambda>kv. snd kv \<noteq> JUndefined)
       [(str ''id'', JString i), (str ''prompt'', JString pr), (str ''createdAt'', JString d),
        (str ''size'', sz), (str ''quality'', q)]) ''quality'' = q"
  by (simp_all add: get_property_def str_def)

lemma fromJSON_stored:
  "fromJSON e (JObject (filter (\<lambda>kv. snd kv \<noteq> JUndefined)
       [(str ''id'', JString i), (str ''prompt'', JString pr), (str ''createdAt'', JString d),
        (str ''size'', sz), (str ''quality'', q)]))
     = Inr \<lparr>meta_id = JString i, meta_prompt = JString pr,
             meta_createdAt = new_Date e (JString d), meta_size = sz, meta_quality = q\<rparr>"
  unfolding fromJSON_def data_property.simps get_property_stored by simp

lemma findById_written:
  "findById e (write_file (getMetadataPath e i) (JSON_stringify (JObject kvs)) s1) i
     = (case fromJSON e (JObject (filter (\<lambda>kv. snd kv \<noteq> JUndefined) kvs)) of
          Inl err \<Rightarrow> None | Inr m \<Rightarrow> Some m)"
  by (simp add: findById_def existsSync_def read_metadata_def readFileSync_def update_conv')

text \<open>
  Claim C5. After a successful \<open>save\<close> returning an id, \<open>findById\<close> of that id on the
  resulting world returns a record with the saved prompt, size and quality (an absent
  size or quality reads back absent) and a creation time between the clock at the call
  and the clock at the return. The runtime's \<open>Date\<close> has to read back the text that
  \<open>toISOString\<close> printed for that time.
\<close>

theorem save_then_findById:
  assumes "save e uuid url pr sz q s = Some (Inr i, s')"
    and "new_Date e (JString (toISOString e (clock s'))) = ValidDate (clock s')"
  shows "\<exists>m t. findById e s' i = Some m
               \<and> meta_id m = JString i
               \<and> meta_prompt m = JString pr \<and> meta_size m = sz \<and> meta_quality m = q
               \<and> meta_createdAt m = ValidDate t \<and> clock s \<le> t \<and> t \<le> clock s'"
  using assms(1)
proof (cases rule: save_cases)
  case (saved s1)
  from downloadImage_post [OF saved(1)] have c: "clock s \<le> clock s1"
    by (simp add: download_post_def)
  from saved have c': "clock s' = clock s1" and i: "i = uuid"
    by simp_all
  have "findById e s' i
          = Some \<lparr>meta_id = JString i, meta_prompt = JString pr,
                  meta_createdAt = new_Date e (JString (toISOString e (clock s1))),
                  meta_size = sz, meta_quality = q\<rparr>"
    unfolding saved(4) i findById_written fromJSON_stored by simp
  with assms(2) c c' show ?thesis by simp
qed simp_all

theorem save_then_findById_witness:
  "save demo_env (str ''new1'') (str ''https://cdn.example/img?sig=1'') (str ''a cat'')
      JUndefined (JString (str ''hd'')) demo_world
     = Some (Inr (str ''new1''), demo_saved_world)
   \<and> new_Date demo_env (JString (toISOString demo_env (clock demo_saved_world)))
       = ValidDate (clock demo_saved_world)
   \<and> findById demo_env demo_saved_world (str ''new1'')
       = Some \<lparr>meta_id = JString (str ''new1''), meta_prompt = JString (str ''a cat''),
               meta_createdAt = ValidDate 1000160, meta_size = JUndefined,
               meta_quality = JString (str ''hd'')\<rparr>
   \<and> clock demo_world \<le> 1000160 \<and> 1000160 \<le> clock demo_saved_world"
proof -
  have c: "clock demo_saved_world = 1000160" "clock demo_world = 1000000"
    by (simp_all add: demo_saved_world_def demo_world_def)
  have d: "new_Date demo_env (JString (toISOString demo_env (clock demo_saved_world)))
       = ValidDate (clock demo_saved_world)"
    by (simp add: c demo_env_def demo_dates_def str_def)
  from save_then_findById [OF demo_save d]
  obtain m t where "findById demo_env demo_saved_world (str ''new1'') = Some m"
    "meta_id m = JString (str ''new1'')" "meta_prompt m = JString (str ''a cat'')"
    "meta_size m = JUndefined" "meta_quality m = JString (str ''hd'')"
    "meta_createdAt m = ValidDate t" "clock demo_world \<le> t" "t \<le> clock demo_saved_world"
    by blast
  moreover have "findById demo_env demo_saved_world (str ''new1'')
       = Some \<lparr>meta_id = JString (str ''new1''), meta_prompt = JString (str ''a cat''),
               meta_createdAt = ValidDate 1000160, meta_size = JUndefined,
               meta_quality = JString (str ''hd'')\<rparr>"
    unfolding findById_def Let_def demo_paths
    by (simp add: demo_new_Date_env existsSync_def read_metadata_def readFileSync_def fromJSON_def
        demo_saved_world_def write_file_def get_property_def demo_dates_def str_def update_conv')
  ultimately show ?thesis using demo_save d c by simp
qed

section \<open>Listing\<close>




subsection \<open>The sort returns the elements it was given\<close>





subsection \<open>With a comparator that follows a key, the sort orders by the key\<close>





















section \<open>The generation pipeline\<close>

lemma new_request_value:
  assumes "new_ImageGenerationRequest p sz q = Inr request"
  shows "request = \<lparr>req_prompt = p,
                    req_size = or_default sz (JString ImageSize_SQUARE),
                    req_quality = or_default q (JString ImageQuality_STANDARD)\<rparr>"
    and "trim p \<noteq> []" and "p \<noteq> []"
  using assms
  by (auto simp: new_ImageGenerationRequest_def validate_def Let_def split: if_splits)

lemma generateImage_success:
  assumes "generateImage e uuid request s = Some (Inr result, s')"
  shows "\<exists>url. generate e (req_prompt request) (req_size request) (req_quality request) = Inr url
               \<and> url \<noteq> []
               \<and> save e uuid url (req_prompt request) (req_size request) (req_quality request) s
                   = Some (Inr uuid, s')
               \<and> result = \<lparr>imageId = uuid, imageUrl = str ''/api/images/'' @ uuid,
                             prompt = req_prompt request\<rparr>"
proof (cases "generate e (req_prompt request) (req_size request) (req_quality request)")
  case (Inl err)
  with assms show ?thesis by (simp add: generateImage_def)
next
  case (Inr url)
  show ?thesis
  proof (cases "url = []")
    case True
    with assms Inr show ?thesis by (simp add: generateImage_def)
  next
    case False
    from assms Inr False obtain newId where
      sv: "save e uuid url (req_prompt request) (req_size request) (req_quality request) s
             = Some (Inr newId, s')"
      and r: "result = \<lparr>imageId = newId, imageUrl = str ''/api/images/'' @ newId,
                         prompt = req_prompt request\<rparr>"
      by (auto simp: generateImage_def split: option.splits sum.splits prod.splits)
    from sv have "newId = uuid"
      by (cases rule: save_cases) simp_all
    with sv r Inr False show ?thesis by simp
  qed
qed

text \<open>
  Claim C1, as the code has it. For a valid request, a successful run of
  \<open>generateImage\<close> returns the id that \<open>save\<close> generated, the URL \<open>/api/images/\<close>
  followed by that id, and the prompt of the request: the original one, under which
  the image was saved as well, whatever the enhancer made of it. The Generate handler
  then answers 200 with a JSON body holding \<open>success: true\<close> and the keys \<open>imageId\<close>,
  \<open>imageUrl\<close> and \<open>prompt\<close> with these values.
\<close>

theorem generate_returns_id_url_prompt:
  assumes "new_ImageGenerationRequest p sz q = Inr request"
    and "generateImage e uuid request s = Some (Inr result, s')"
  shows "imageId result = uuid
         \<and> imageUrl result = str ''/api/images/'' @ uuid
         \<and> prompt result = p
         \<and> (\<exists>url. generate e p (req_size request) (req_quality request) = Inr url
                \<and> save e uuid url p (req_size request) (req_quality request) s = Some (Inr uuid, s'))
         \<and> (\<forall>req_body.
               get_property req_body ''prompt'' = JString p
               \<and> or_default (get_property req_body ''size'') (JString (str ''1024x1024'')) = sz
               \<and> or_default (get_property req_body ''quality'') (JString (str ''standard'')) = q
               \<longrightarrow> generate_handler e uuid req_body s
                     = Some (Json 200 [(str ''success'', JBool True),
                                       (str ''imageId'', JString uuid),
                                       (str ''imageUrl'', JString (str ''/api/images/'' @ uuid)),
                                       (str ''prompt'', JString p)], s'))"
proof -
  note rq = new_request_value [OF assms(1)]
  from rq(1) have p: "req_prompt request = p" by simp
  from generateImage_success [OF assms(2)] obtain url where
    g: "generate e p (req_size request) (req_quality request) = Inr url"
    and sv: "save e uuid url p (req_size request) (req_quality request) s = Some (Inr uuid, s')"
    and r: "result = \<lparr>imageId = uuid, imageUrl = str ''/api/images/'' @ uuid, prompt = p\<rparr>"
    unfolding p by blast
  have h: "generate_handler e uuid req_body s
             = Some (Json 200 [(str ''success'', JBool True),
                               (str ''imageId'', JString uuid),
                               (str ''imageUrl'', JString (str ''/api/images/'' @ uuid)),
                               (str ''prompt'', JString p)], s')"
    if "get_property req_body ''prompt'' = JString p
        \<and> or_default (get_property req_body ''size'') (JString (str ''1024x1024'')) = sz
        \<and> or_default (get_property req_body ''quality'') (JString (str ''standard'')) = q"
    for req_body
    using that assms rq(3) r
    by (simp add: generate_handler_def Let_def)
  from r g sv h show ?thesis by auto
qed

lemma demo_enhance:
  "enhancePromptWithLangChain demo_env (str ''a cat'')
     = str ''a cat, painted in watercolor, soft lighting''"
  by (simp add: enhancePromptWithLangChain_def enhance_attempt_def demo_env_def str_def
      trim_def isWhiteSpace_def)

lemma demo_generate:
  "generate demo_env p sz q = Inr (str ''https://cdn.example/img?sig=1'')"
  by (simp add: generate_def Let_def demo_env_def)

lemma demo_request:
  "new_ImageGenerationRequest (str ''a cat'') (JString (str ''1024x1024'')) (JString (str ''standard''))
     = Inr \<lparr>req_prompt = str ''a cat'', req_size = JString (str ''1024x1024''),
             req_quality = JString (str ''standard'')\<rparr>"
  by (simp add: new_ImageGenerationRequest_def validate_def Let_def or_default_def trim_def
      isWhiteSpace_def str_def)

lemma demo_save_default:
  "save demo_env (str ''new1'') (str ''https://cdn.example/img?sig=1'') (str ''a cat'')
      (JString (str ''1024x1024'')) (JString (str ''standard'')) demo_world
     = Some (Inr (str ''new1''), demo_generated_world)"
proof -
  have c: "clock demo_world = 1000000"
    by (simp add: demo_world_def)
  have t: "toISOString demo_env 1000160 = str ''1970-01-01T00:16:40.160Z''"
    by (simp add: demo_env_def demo_dates_def)
  show ?thesis
    by (simp add: save_def Let_def demo_download_redirect toJSON_def demo_write_error demo_paths
        demo_generated_world_def c t write_file_def)
qed

lemma demo_generateImage:
  "generateImage demo_env (str ''new1'')
      \<lparr>req_prompt = str ''a cat'', req_size = JString (str ''1024x1024''),
       req_quality = JString (str ''standard'')\<rparr> demo_world
     = Some (Inr \<lparr>imageId = str ''new1'', imageUrl = str ''/api/images/'' @ str ''new1'',
                  prompt = str ''a cat''\<rparr>, demo_generated_world)"
proof -
  have "str ''https://cdn.example/img?sig=1'' \<noteq> []"
    by (simp add: str_def)
  then show ?thesis
    by (simp add: generateImage_def demo_generate demo_save_default)
qed

lemma demo_body:
  "get_property [(str ''prompt'', JString (str ''a cat''))] ''prompt'' = JString (str ''a cat'')
   \<and> or_default (get_property [(str ''prompt'', JString (str ''a cat''))] ''size'')
        (JString (str ''1024x1024'')) = JString (str ''1024x1024'')
   \<and> or_default (get_property [(str ''prompt'', JString (str ''a cat''))] ''quality'')
        (JString (str ''standard'')) = JString (str ''standard'')"
  by (simp add: get_property_def or_default_def str_def)

theorem generate_returns_id_url_prompt_witness:
  "new_ImageGenerationRequest (str ''a cat'') (JString (str ''1024x1024'')) (JString (str ''standard''))
     = Inr \<lparr>req_prompt = str ''a cat'', req_size = JString (str ''1024x1024''),
             req_quality = JString (str ''standard'')\<rparr>
   \<and> enhancePromptWithLangChain demo_env (str ''a cat'')
       = str ''a cat, painted in watercolor, soft lighting''
   \<and> generateImage demo_env (str ''new1'')
        \<lparr>req_prompt = str ''a cat'', req_size = JString (str ''1024x1024''),
         req_quality = JString (str ''standard'')\<rparr> demo_world
       = Some (Inr \<lparr>imageId = str ''new1'', imageUrl = str ''/api/images/new1'',
                    prompt = str ''a cat''\<rparr>, demo_generated_world)
   \<and> generate_handler demo_env (str ''new1'') [(str ''prompt'', JString (str ''a cat''))] demo_world
       = Some (Json 200 [(str ''success'', JBool True),
                         (str ''imageId'', JString (str ''new1'')),
                         (str ''imageUrl'', JString (str ''/api/images/new1'')),
                         (str ''prompt'', JString (str ''a cat''))], demo_generated_world)"
proof -
  have u: "str ''/api/images/'' @ str ''new1'' = str ''/api/images/new1''"
    by (simp add: str_def)
  have "generate_handler demo_env (str ''new1'') [(str ''prompt'', JString (str ''a cat''))] demo_world
       = Some (Json 200 [(str ''success'', JBool True),
                         (str ''imageId'', JString (str ''new1'')),
                         (str ''imageUrl'', JString (str ''/api/images/'' @ str ''new1'')),
                         (str ''prompt'', JString (str ''a cat''))], demo_generated_world)"
    by (rule generate_returns_id_url_prompt [OF demo_request demo_generateImage,
          THEN conjunct2, THEN conjunct2, THEN conjunct2, THEN conjunct2, rule_format, OF demo_body])
  with demo_request demo_enhance demo_generateImage show ?thesis
    unfolding u by (intro conjI)
qed

lemma demo_generate_reply:
  "generate_handler demo_env (str ''new1'') [(str ''prompt'', JString (str ''a cat''))] demo_world
       = Some (Json 200 [(str ''success'', JBool True),
                         (str ''imageId'', JString (str ''new1'')),
                         (str ''imageUrl'', JString (str ''/api/images/new1'')),
                         (str ''prompt'', JString (str ''a cat''))], demo_generated_world)"
proof -
  have u: "str ''/api/images/'' @ str ''new1'' = str ''/api/images/new1''"
    by (simp add: str_def)
  have n: "str ''a cat'' \<noteq> []"
    by (simp add: str_def)
  show ?thesis
    using demo_body n
    by (simp add: generate_handler_def Let_def demo_request demo_generateImage u)
qed

text \<open>
  The body the handler sends for the example request has no key \<open>id\<close> and no key
  \<open>url\<close>: the values travel under \<open>imageId\<close> and \<open>imageUrl\<close>.
\<close>

theorem generate_reply_keys_counterexample:
  "generate_handler demo_env (str ''new1'') [(str ''prompt'', JString (str ''a cat''))] demo_world
       = Some (Json 200 [(str ''success'', JBool True),
                         (str ''imageId'', JString (str ''new1'')),
                         (str ''imageUrl'', JString (str ''/api/images/new1'')),
                         (str ''prompt'', JString (str ''a cat''))], demo_generated_world)
   \<and> map_of [(str ''success'', JBool True),
              (str ''imageId'', JString (str ''new1'')),
              (str ''imageUrl'', JString (str ''/api/images/new1'')),
              (str ''prompt'', JString (str ''a cat''))] (str ''id'') = None
   \<and> map_of [(str ''success'', JBool True),
              (str ''imageId'', JString (str ''new1'')),
              (str ''imageUrl'', JString (str ''/api/images/new1'')),
              (str ''prompt'', JString (str ''a cat''))] (str ''url'') = None"
proof -
  have "map_of [(str ''success'', JBool True),
              (str ''imageId'', JString (str ''new1'')),
              (str ''imageUrl'', JString (str ''/api/images/new1'')),
              (str ''prompt'', JString (str ''a cat''))] (str ''id'') = None"
    "map_of [(str ''success'', JBool True),
              (str ''imageId'', JString (str ''new1'')),
              (str ''imageUrl'', JString (str ''/api/images/new1'')),
              (str ''prompt'', JString (str ''a cat''))] (str ''url'') = None"
    by (simp_all add: str_def)
  with demo_generate_reply show ?thesis by (intro conjI)
qed

end
